theory Spec2Isabelle
  imports Main "HOL-Library.Sublist" "HOL-Library.Word"
begin

section \<open>Data model of the background service worker (background.js)\<close>

text \<open>
  The worker keeps one mutable object \<^verbatim>\<open>state\<close> (background.js, lines 4-12). Its
  \<^verbatim>\<open>status\<close> is one of six strings; JavaScript numbers are modelled as mathematical
  integers (timestamps in milliseconds, time-outs in seconds), which is exact for every
  value below \<open>2^53\<close>; \<^verbatim>\<open>null\<close> is \<open>None\<close>.
\<close>

datatype status = Idle | Checking | Connected | NeedsLogin | Error | NetworkDown

record auth_state =
  status :: status
  lastError :: "string option"
  lastLoginAt :: "int option"
  nextRenewAt :: "int option"
  isConnected :: bool
  retryCount :: nat
  sessionTimeout :: int

definition initial_state :: auth_state where
  "initial_state =
     \<lparr>status = Idle, lastError = None, lastLoginAt = None, nextRenewAt = None,
      isConnected = False, retryCount = 0, sessionTimeout = 1200\<rparr>"

text \<open>The constants of lines 15-20.\<close>

definition PORTAL_URL :: string where
  "PORTAL_URL = ''https://agnigarh.iitg.ac.in:1442/login?''"

definition RENEW_BEFORE :: int where
  "RENEW_BEFORE = 120"

definition RETRY_DELAYS :: "nat list" where
  "RETRY_DELAYS = [5, 15, 45, 120]"

text \<open>
  The argument of \<^verbatim>\<open>updateState\<close> is an object holding some of the fields; a field that
  is not mentioned is \<open>None\<close> here. \<^verbatim>\<open>lastError\<close> can be set to \<^verbatim>\<open>null\<close>, hence the
  double option.
\<close>

record updates =
  u_status :: "status option"
  u_lastError :: "string option option"
  u_lastLoginAt :: "int option"
  u_nextRenewAt :: "int option"
  u_isConnected :: "bool option"
  u_retryCount :: "nat option"
  u_sessionTimeout :: "int option"

definition no_updates :: updates where
  "no_updates =
     \<lparr>u_status = None, u_lastError = None, u_lastLoginAt = None, u_nextRenewAt = None,
      u_isConnected = None, u_retryCount = None, u_sessionTimeout = None\<rparr>"

text \<open>
  \<^verbatim>\<open>updateState\<close> (lines 104-153): \<^verbatim>\<open>state = { ...state, ...updates }\<close>. The icon,
  the badge, the persisted copy and the broadcast are derived from the new state and
  change nothing in it; they are left to the collaborators.
\<close>

definition updateState :: "updates \<Rightarrow> auth_state \<Rightarrow> auth_state" where
  "updateState u s =
     \<lparr>status = (case u_status u of None \<Rightarrow> status s | Some v \<Rightarrow> v),
      lastError = (case u_lastError u of None \<Rightarrow> lastError s | Some v \<Rightarrow> v),
      lastLoginAt = (case u_lastLoginAt u of None \<Rightarrow> lastLoginAt s | Some v \<Rightarrow> Some v),
      nextRenewAt = (case u_nextRenewAt u of None \<Rightarrow> nextRenewAt s | Some v \<Rightarrow> Some v),
      isConnected = (case u_isConnected u of None \<Rightarrow> isConnected s | Some v \<Rightarrow> v),
      retryCount = (case u_retryCount u of None \<Rightarrow> retryCount s | Some v \<Rightarrow> v),
      sessionTimeout = (case u_sessionTimeout u of None \<Rightarrow> sessionTimeout s | Some v \<Rightarrow> v)\<rparr>"

text \<open>
  What a call leaves behind besides the new state: timers (\<^verbatim>\<open>setTimeout\<close> with the
  function to run and the delay in milliseconds) and the credentials notification.
\<close>

datatype action = CheckAndLogin | PerformLogin

datatype effect = SetTimeout action nat | ShowCredentialsNotification

text \<open>A JavaScript exception: its \<^verbatim>\<open>name\<close> and its \<^verbatim>\<open>message\<close>.\<close>

datatype js_error = JsError (err_name: string) (err_message: string)

definition Error_of :: "string \<Rightarrow> js_error" where
  "Error_of msg = JsError ''Error'' msg"

text \<open>
  A \<^verbatim>\<open>fetch\<close> either rejects or resolves to a response; reading the body of a response
  (\<^verbatim>\<open>response.text()\<close>) can reject as well.
\<close>

record response =
  resp_status :: nat
  resp_text :: "js_error + string"

type_synonym fetch_result = "js_error + response"

definition ok :: "response \<Rightarrow> bool" where
  "ok r = (200 \<le> resp_status r \<and> resp_status r \<le> 299)"

section \<open>Connectivity probe\<close>

text \<open>
  \<^verbatim>\<open>checkConnectivity\<close> (lines 156-219) returns one of three objects:
  \<^verbatim>\<open>{connected: true}\<close>, \<^verbatim>\<open>{connected: false, needsLogin: true}\<close>,
  \<^verbatim>\<open>{connected: false, networkDown: true}\<close>. A missing field reads as falsy.
  The two arguments are what the two requests would give; the second is looked at only
  when the first did not answer 204.
\<close>

record connectivity =
  connected :: bool
  needsLogin :: bool
  networkDown :: bool

definition checkConnectivity :: "fetch_result \<Rightarrow> fetch_result \<Rightarrow> connectivity" where
  "checkConnectivity external portal =
     (if (case external of Inl fetchError \<Rightarrow> False | Inr response \<Rightarrow> resp_status response = 204)
      then \<lparr>connected = True, needsLogin = False, networkDown = False\<rparr>
      else if (case portal of Inl portalError \<Rightarrow> False
               | Inr portalResponse \<Rightarrow> ok portalResponse \<or> resp_status portalResponse = 302)
      then \<lparr>connected = False, needsLogin = True, networkDown = False\<rparr>
      else \<lparr>connected = False, needsLogin = False, networkDown = True\<rparr>)"

section \<open>Network-down handling\<close>

text \<open>\<^verbatim>\<open>handleNetworkDown\<close> (lines 258-277).\<close>

definition handleNetworkDown :: "auth_state \<Rightarrow> auth_state \<times> effect list" where
  "handleNetworkDown s =
     (if retryCount s < length RETRY_DELAYS then
        (let delay = RETRY_DELAYS ! retryCount s in
         (updateState (no_updates\<lparr>u_status := Some NetworkDown,
                                   u_lastError := Some (Some ''Network unreachable''),
                                   u_retryCount := Some (retryCount s + 1)\<rparr>) s,
          [SetTimeout CheckAndLogin (delay * 1000)]))
      else
        (updateState (no_updates\<lparr>u_status := Some NetworkDown,
                                  u_lastError := Some (Some ''Network unreachable - max retries exceeded''),
                                  u_retryCount := Some 0\<rparr>) s,
         []))"

section \<open>Strings and regular expressions\<close>

text \<open>
  Strings are lists of 8-bit code units (Latin-1). \<^verbatim>\<open>toLowerCase\<close> maps \<open>A-Z\<close> and the
  Latin-1 capitals to their small letters; \<^verbatim>\<open>includes\<close> (\<open>includes_str\<close>) is the substring test.
\<close>

definition lower_char :: "char \<Rightarrow> char" where
  "lower_char c =
     (let n = (of_char c :: nat) in
      if (65 \<le> n \<and> n \<le> 90) \<or> (192 \<le> n \<and> n \<le> 222 \<and> n \<noteq> 215) then char_of (n + 32) else c)"

definition toLowerCase :: "string \<Rightarrow> string" where
  "toLowerCase str = map lower_char str"

fun includes_str :: "string \<Rightarrow> string \<Rightarrow> bool" where
  "includes_str [] needle = (needle = [])"
| "includes_str (c # cs) needle = (prefix needle (c # cs) \<or> includes_str cs needle)"

text \<open>
  The regular expressions of the source are sequences of one-character classes, each
  taken once or under a greedy \<^verbatim>\<open>*\<close> or \<^verbatim>\<open>+\<close>, with one capture group around one such
  item. All carry the flag \<^verbatim>\<open>i\<close>: a literal letter matches both cases.
\<close>

datatype cclass =
    Lit char          \<comment> \<open>a literal character, case-insensitive\<close>
  | Space             \<comment> \<open>\<^verbatim>\<open>\s\<close>\<close>
  | UnderscoreSpace   \<comment> \<open>\<^verbatim>\<open>[_\s]\<close>\<close>
  | ColonEquals       \<comment> \<open>\<^verbatim>\<open>[:\=]\<close>\<close>
  | Digit             \<comment> \<open>\<^verbatim>\<open>\d\<close>\<close>
  | NotChar char      \<comment> \<open>\<^verbatim>\<open>[^c]\<close>\<close>

datatype quant = Once | Star | Plus

datatype item = Atom cclass quant | Capture cclass quant

definition is_space :: "char \<Rightarrow> bool" where
  "is_space c = ((of_char c :: nat) \<in> {9, 10, 11, 12, 13, 32, 160})"

definition is_digit :: "char \<Rightarrow> bool" where
  "is_digit c = (48 \<le> (of_char c :: nat) \<and> (of_char c :: nat) \<le> 57)"

definition ascii_lower :: "char \<Rightarrow> char" where
  "ascii_lower c =
     (let n = (of_char c :: nat) in if 65 \<le> n \<and> n \<le> 90 then char_of (n + 32) else c)"

fun cc_match :: "cclass \<Rightarrow> char \<Rightarrow> bool" where
  "cc_match (Lit a) c = (ascii_lower c = ascii_lower a)"
| "cc_match Space c = is_space c"
| "cc_match UnderscoreSpace c = (c = CHR ''_'' \<or> is_space c)"
| "cc_match ColonEquals c = (c = CHR '':'' \<or> c = CHR ''='')"
| "cc_match Digit c = is_digit c"
| "cc_match (NotChar a) c = (c \<noteq> a)"

fun item_class :: "item \<Rightarrow> cclass" where
  "item_class (Atom cc q) = cc"
| "item_class (Capture cc q) = cc"

fun item_quant :: "item \<Rightarrow> quant" where
  "item_quant (Atom cc q) = q"
| "item_quant (Capture cc q) = q"

fun is_capture :: "item \<Rightarrow> bool" where
  "is_capture (Atom cc q) = False"
| "is_capture (Capture cc q) = True"

text \<open>
  The numbers of characters an item may take at the head of \<open>str\<close>, in the order a
  backtracking matcher tries them: the longest run first.
\<close>

definition counts :: "item \<Rightarrow> string \<Rightarrow> nat list" where
  "counts it str =
     (let n = length (takeWhile (cc_match (item_class it)) str) in
      case item_quant it of
        Once \<Rightarrow> (if 1 \<le> n then [1] else [])
      | Star \<Rightarrow> rev [0 ..< Suc n]
      | Plus \<Rightarrow> rev [1 ..< Suc n])"

text \<open>
  All the ways the items match at the head of \<open>str\<close>, in backtracking order, each with
  the text of the capture group.
\<close>

fun matchHere :: "item list \<Rightarrow> string \<Rightarrow> string \<Rightarrow> string list" where
  "matchHere [] str cap = [cap]"
| "matchHere (it # its) str cap =
     concat (map (\<lambda>k. matchHere its (drop k str) (if is_capture it then take k str else cap))
                 (counts it str))"

text \<open>
  \<^verbatim>\<open>str.match(regex)\<close> for a regex without the flag \<^verbatim>\<open>g\<close>: the leftmost match, and at
  that place the first one in backtracking order. The result is \<^verbatim>\<open>match[1]\<close>, or \<open>None\<close>
  for \<^verbatim>\<open>null\<close>.
\<close>

fun match1 :: "item list \<Rightarrow> string \<Rightarrow> string option" where
  "match1 re [] = (case matchHere re [] [] of [] \<Rightarrow> None | cap # _ \<Rightarrow> Some cap)"
| "match1 re (c # cs) =
     (case matchHere re (c # cs) [] of [] \<Rightarrow> match1 re cs | cap # _ \<Rightarrow> Some cap)"

definition lits :: "string \<Rightarrow> item list" where
  "lits str = map (\<lambda>c. Atom (Lit c) Once) str"

text \<open>\<^verbatim>\<open>parseInt\<close> on a string of decimal digits.\<close>

definition digit_val :: "char \<Rightarrow> int" where
  "digit_val c = int (of_char c) - 48"

definition parseInt :: "string \<Rightarrow> int" where
  "parseInt str = foldl (\<lambda>acc c. acc * 10 + digit_val c) 0 str"

section \<open>Form parsing\<close>

text \<open>\<^verbatim>\<open>extractFormData\<close> (lines 280-316): per field the first pattern that matches.\<close>

definition dquote :: char where
  "dquote = CHR 0x22"

definition squote :: char where
  "squote = CHR 0x27"

definition lit :: "char \<Rightarrow> item list" where
  "lit c = [Atom (Lit c) Once]"

definition field_patterns :: "string \<Rightarrow> item list list" where
  "field_patterns field =
     [lits ''name='' @ lit dquote @ lits field @ lit dquote @ [Atom Space Plus]
        @ lits ''value='' @ lit dquote @ [Capture (NotChar dquote) Plus] @ lit dquote,
      lits ''name='' @ lit squote @ lits field @ lit squote @ [Atom Space Plus]
        @ lits ''value='' @ lit squote @ [Capture (NotChar squote) Plus] @ lit squote,
      lits ''<input'' @ [Atom (NotChar CHR ''>'') Star]
        @ lits ''name='' @ lit dquote @ lits field @ lit dquote @ [Atom (NotChar CHR ''>'') Star]
        @ lits ''value='' @ lit dquote @ [Capture (NotChar dquote) Plus] @ lit dquote,
      lits ''value='' @ lit dquote @ [Capture (NotChar dquote) Plus] @ lit dquote
        @ [Atom (NotChar CHR ''>'') Star] @ lits ''name='' @ lit dquote @ lits field @ lit dquote]"

fun first_match :: "item list list \<Rightarrow> string \<Rightarrow> string option" where
  "first_match [] html = None"
| "first_match (regex # regexes) html =
     (case match1 regex html of Some m \<Rightarrow> Some m | None \<Rightarrow> first_match regexes html)"

record form_data =
  magic :: "string option"
  tredir :: string

definition extractFormData :: "string \<Rightarrow> form_data" where
  "extractFormData html =
     \<lparr>magic = first_match (field_patterns ''magic'') html,
      tredir = (case first_match (field_patterns ''4Tredir'') html of
                  None \<Rightarrow> PORTAL_URL | Some t \<Rightarrow> t)\<rparr>"

section \<open>Session time-out hint\<close>

text \<open>
  \<^verbatim>\<open>detectSessionTimeout\<close> (lines 319-338). The result is a JavaScript value: \<open>Some n\<close>
  is the number \<open>n\<close>, \<open>None\<close> would be \<^verbatim>\<open>undefined\<close> or \<^verbatim>\<open>null\<close>.
\<close>

definition timeout_patterns :: "item list list" where
  "timeout_patterns =
     [lits ''session'' @ [Atom UnderscoreSpace Star] @ lits ''timeout'' @ [Atom UnderscoreSpace Star]
        @ [Atom ColonEquals Once, Atom Space Star, Capture Digit Plus],
      lits ''keepalive'' @ [Atom UnderscoreSpace Star]
        @ [Atom ColonEquals Once, Atom Space Star, Capture Digit Plus],
      lits ''timeout'' @ [Atom UnderscoreSpace Star]
        @ [Atom ColonEquals Once, Atom Space Star, Capture Digit Plus, Atom UnderscoreSpace Star]
        @ lits ''min'']"

fun detect_loop :: "item list list \<Rightarrow> auth_state \<Rightarrow> string \<Rightarrow> int option" where
  "detect_loop [] s html = Some (sessionTimeout s)"
| "detect_loop (pattern # patterns) s html =
     (case match1 pattern html of
        Some m \<Rightarrow> (let timeout = parseInt m in Some (if timeout < 60 then timeout * 60 else timeout))
      | None \<Rightarrow> detect_loop patterns s html)"

definition detectSessionTimeout :: "auth_state \<Rightarrow> string \<Rightarrow> int option" where
  "detectSessionTimeout s html = detect_loop timeout_patterns s html"

section \<open>The login attempt\<close>

text \<open>
  What one cycle meets outside the worker: the answers of the two probe requests, the
  clock (\<^verbatim>\<open>Date.now()\<close> in \<^verbatim>\<open>checkAndLogin\<close> and at the moment of a successful
  login), the stored \<^verbatim>\<open>encryptedCreds\<close> entry (the read may reject, the entry may be
  absent), the imported \<^verbatim>\<open>credentialManager.decryptCredentials\<close>, the answer to the
  request for the login page and the portal's answer to the submitted form.
\<close>

record encrypted_blob =
  data :: string
  timestamp :: int
  version :: string

record credentials =
  username :: string
  password :: string

record login_form =
  f_username :: string
  f_password :: string
  f_magic :: string
  f_4Tredir :: string

record world =
  w_external :: fetch_result
  w_portal :: fetch_result
  w_now :: int
  w_storedCreds :: "js_error + encrypted_blob option"
  w_decryptCredentials :: "encrypted_blob \<Rightarrow> js_error + credentials option"
  w_loginPage :: fetch_result
  w_loginPost :: "login_form \<Rightarrow> fetch_result"
  w_loginNow :: int

text \<open>The decimal text of a number, as a template literal prints it.\<close>

function toString_nat :: "nat \<Rightarrow> string" where
  "toString_nat n =
     (if n < 10 then [char_of (48 + n)]
      else toString_nat (n div 10) @ [char_of (48 + n mod 10)])"
  by pat_completeness auto
termination
  by (relation "measure id") auto

definition successIndicators :: "string list" where
  "successIndicators = [''keepalive'', ''logout'', ''success'', ''welcome'']"

definition errorIndicators :: "string list" where
  "errorIndicators = [''invalid'', ''failed'', ''incorrect'', ''error'', ''login-form'']"

definition hasSuccess :: "string \<Rightarrow> bool" where
  "hasSuccess responseText =
     list_ex (\<lambda>indicator. includes_str (toLowerCase responseText) indicator) successIndicators"

definition hasError :: "string \<Rightarrow> bool" where
  "hasError responseText =
     list_ex (\<lambda>indicator. includes_str (toLowerCase responseText) indicator) errorIndicators"

text \<open>
  The body of the \<^verbatim>\<open>try\<close> of \<^verbatim>\<open>performLogin\<close> gives the state and the effects it
  reached, and the exception when it threw. It is written in three parts, each a
  stretch of the source.
\<close>

type_synonym outcome = "(auth_state \<times> effect list) \<times> js_error option"

definition throw :: "js_error \<Rightarrow> auth_state \<Rightarrow> outcome" where
  "throw e s = ((s, []), Some e)"

definition loginSucceeded :: "world \<Rightarrow> auth_state \<Rightarrow> outcome" where
  \<comment> \<open>lines 474-489\<close>
  "loginSucceeded w s =
     (let now = w_loginNow w;
          sessionDuration = (sessionTimeout s - RENEW_BEFORE) * 1000;
          nextRenew = now + sessionDuration
      in ((updateState (no_updates\<lparr>u_status := Some Connected,
                                     u_isConnected := Some True,
                                     u_lastError := Some None,
                                     u_lastLoginAt := Some now,
                                     u_nextRenewAt := Some nextRenew,
                                     u_retryCount := Some 0\<rparr>) s, []), None))"

definition unexpectedResponse :: js_error where
  "unexpectedResponse = Error_of ''Login failed - unexpected response''"

definition performLogin_check :: "world \<Rightarrow> auth_state \<Rightarrow> response \<Rightarrow> outcome" where
  \<comment> \<open>lines 436-492\<close>
  "performLogin_check w s loginResponse =
     (if resp_status loginResponse = 302 \<or> resp_status loginResponse = 303 then loginSucceeded w s
      else if ok loginResponse then
        (case resp_text loginResponse of
           Inl e \<Rightarrow> throw e s
         | Inr responseText \<Rightarrow>
             if hasSuccess responseText \<and> \<not> hasError responseText then loginSucceeded w s
             else if hasError responseText then
               ((updateState (no_updates\<lparr>u_status := Some Error,
                                          u_lastError := Some (Some ''Invalid credentials''),
                                          u_isConnected := Some False,
                                          u_retryCount := Some 0\<rparr>) s,
                 [ShowCredentialsNotification]), None)
             else throw unexpectedResponse s)
      else throw unexpectedResponse s)"

definition performLogin_request :: "world \<Rightarrow> auth_state \<Rightarrow> credentials \<Rightarrow> outcome" where
  \<comment> \<open>lines 373-434\<close>
  "performLogin_request w s creds =
     (case w_loginPage w of
        Inl e \<Rightarrow> throw e s
      | Inr loginPageResponse \<Rightarrow>
          if \<not> ok loginPageResponse then
            throw (Error_of (''Failed to fetch login page: ''
                               @ toString_nat (resp_status loginPageResponse))) s
          else
            (case resp_text loginPageResponse of
               Inl e \<Rightarrow> throw e s
             | Inr loginPageHtml \<Rightarrow>
                 (let formData = extractFormData loginPageHtml in
                  case magic formData of
                    None \<Rightarrow> throw (Error_of ''Could not find magic token in login page'') s
                  | Some m \<Rightarrow>
                      if m = [] then
                        throw (Error_of ''Could not find magic token in login page'') s
                      else
                        (let s1 = (case detectSessionTimeout s loginPageHtml of
                                     None \<Rightarrow> s
                                   | Some detectedTimeout \<Rightarrow>
                                       if detectedTimeout \<noteq> sessionTimeout s
                                       then updateState
                                              (no_updates\<lparr>u_sessionTimeout := Some detectedTimeout\<rparr>) s
                                       else s);
                             loginForm = \<lparr>f_username = username creds,
                                          f_password = password creds,
                                          f_magic = m,
                                          f_4Tredir = tredir formData\<rparr>
                         in case w_loginPost w loginForm of
                              Inl e \<Rightarrow> throw e s1
                            | Inr loginResponse \<Rightarrow> performLogin_check w s1 loginResponse))))"

definition credentialsProblem :: "string \<Rightarrow> auth_state \<Rightarrow> outcome" where
  \<comment> \<open>lines 349-355 and 361-367\<close>
  "credentialsProblem msg s =
     ((updateState (no_updates\<lparr>u_status := Some Error,
                                u_lastError := Some (Some msg),
                                u_isConnected := Some False\<rparr>) s,
       [ShowCredentialsNotification]), None)"

definition performLogin_try :: "world \<Rightarrow> auth_state \<Rightarrow> outcome" where
  \<comment> \<open>lines 346-371, then the rest of the \<^verbatim>\<open>try\<close>\<close>
  "performLogin_try w s =
     (case w_storedCreds w of
        Inl e \<Rightarrow> throw e s
      | Inr None \<Rightarrow> credentialsProblem ''Credentials not configured'' s
      | Inr (Some encryptedCreds) \<Rightarrow>
          (case w_decryptCredentials w encryptedCreds of
             Inl e \<Rightarrow> throw e s
           | Inr None \<Rightarrow> credentialsProblem ''Failed to decrypt credentials'' s
           | Inr (Some creds) \<Rightarrow>
               if username creds = [] \<or> password creds = []
               then credentialsProblem ''Failed to decrypt credentials'' s
               else performLogin_request w s creds))"

definition performLogin_catch :: "js_error \<Rightarrow> auth_state \<Rightarrow> auth_state \<times> effect list" where
  \<comment> \<open>lines 494-521\<close>
  "performLogin_catch e s =
     (if err_name e = ''AbortError'' then
        (updateState (no_updates\<lparr>u_status := Some Error,
                                  u_lastError := Some (Some ''Login request timed out'')\<rparr>) s, [])
      else if retryCount s < length RETRY_DELAYS then
        (let delay = RETRY_DELAYS ! retryCount s in
         (updateState (no_updates\<lparr>u_status := Some Error,
                                   u_lastError := Some (Some (err_message e)),
                                   u_retryCount := Some (retryCount s + 1)\<rparr>) s,
          [SetTimeout PerformLogin (delay * 1000)]))
      else
        (updateState (no_updates\<lparr>u_status := Some Error,
                                  u_lastError := Some (Some (''Login failed - '' @ err_message e)),
                                  u_isConnected := Some False,
                                  u_retryCount := Some 0\<rparr>) s, []))"

definition performLogin :: "world \<Rightarrow> auth_state \<Rightarrow> auth_state \<times> effect list" where
  "performLogin w s =
     (case performLogin_try w s of
        ((s', effs), None) \<Rightarrow> (s', effs)
      | ((s', effs), Some e) \<Rightarrow>
          (case performLogin_catch e s' of (s'', effs') \<Rightarrow> (s'', effs @ effs')))"

section \<open>The cycle and its triggers\<close>

definition checkAndLogin :: "bool \<Rightarrow> world \<Rightarrow> auth_state \<Rightarrow> auth_state \<times> effect list" where
  \<comment> \<open>lines 222-255\<close>
  "checkAndLogin forceLogin w s =
     (let s0 = updateState (no_updates\<lparr>u_status := Some Checking\<rparr>) s;
          now = w_now w;
          shouldRenew = (case nextRenewAt s0 of None \<Rightarrow> False | Some t \<Rightarrow> t \<noteq> 0 \<and> t \<le> now)
      in if \<not> forceLogin \<and> \<not> shouldRenew then
           (let connectivity = checkConnectivity (w_external w) (w_portal w) in
            if connected connectivity then
              (updateState (no_updates\<lparr>u_status := Some Connected,
                                        u_isConnected := Some True,
                                        u_lastError := Some None,
                                        u_retryCount := Some 0\<rparr>) s0, [])
            else if networkDown connectivity then handleNetworkDown s0
            else performLogin w s0)
         else performLogin w s0)"

text \<open>The \<^verbatim>\<open>force-login\<close> message (lines 551-564) and its answer.\<close>

record reply =
  success :: bool
  message :: "string option"

definition forceLoginMessage :: "world \<Rightarrow> auth_state \<Rightarrow> (auth_state \<times> effect list) \<times> reply" where
  "forceLoginMessage w s =
     (if status s = Connected then
        ((s, []), \<lparr>success = False, message = Some ''Already connected''\<rparr>)
      else if status s = Checking then
        ((s, []), \<lparr>success = False, message = Some ''Already checking...''\<rparr>)
      else (checkAndLogin True w s, \<lparr>success = True, message = None\<rparr>))"

text \<open>A change of the stored \<^verbatim>\<open>encryptedCreds\<close> entry (lines 600-613).\<close>

definition credentialsChanged :: "auth_state \<Rightarrow> auth_state \<times> effect list" where
  "credentialsChanged s =
     (if lastError s = Some ''Credentials not configured''
         \<or> lastError s = Some ''Failed to decrypt credentials''
         \<or> lastError s = Some ''Invalid credentials''
      then (updateState (no_updates\<lparr>u_lastError := Some None,
                                    u_status := Some Idle,
                                    u_retryCount := Some 0\<rparr>) s,
            [SetTimeout CheckAndLogin 1000])
      else (s, []))"

text \<open>
  \<^verbatim>\<open>loadState\<close> (lines 82-101) copies the truthy persisted values into the state and
  starts the first check unless paused; a failing read changes nothing.
\<close>

record persisted =
  p_lastLoginAt :: "int option"
  p_nextRenewAt :: "int option"
  p_paused :: bool
  p_sessionTimeout :: "int option"

definition truthy :: "int option \<Rightarrow> bool" where
  "truthy v = (case v of None \<Rightarrow> False | Some n \<Rightarrow> n \<noteq> 0)"

definition loadState :: "js_error + persisted \<Rightarrow> auth_state \<Rightarrow> auth_state \<times> effect list" where
  "loadState stored s =
     (case stored of
        Inl e \<Rightarrow> (s, [])
      | Inr d \<Rightarrow>
          (let s1 = (if truthy (p_lastLoginAt d) then s\<lparr>lastLoginAt := p_lastLoginAt d\<rparr> else s);
               s2 = (if truthy (p_nextRenewAt d) then s1\<lparr>nextRenewAt := p_nextRenewAt d\<rparr> else s1);
               s3 = (if truthy (p_sessionTimeout d)
                     then s2\<lparr>sessionTimeout := the (p_sessionTimeout d)\<rparr> else s2)
           in (s3, if \<not> p_paused d then [SetTimeout CheckAndLogin 2000] else [])))"

text \<open>
  The triggers that reach the state: the alarm (lines 65-79), a timer set by an earlier
  call, the two messages that start a cycle, the storage change and the start-up load.
  Each is handled to its end before the next one.
\<close>

datatype event =
    Alarm bool world            \<comment> \<open>the periodic alarm, with the stored \<^verbatim>\<open>paused\<close> flag\<close>
  | TimerCheckAndLogin world    \<comment> \<open>a timer calling \<^verbatim>\<open>checkAndLogin()\<close>, or a resume\<close>
  | TimerPerformLogin world     \<comment> \<open>a timer calling \<^verbatim>\<open>performLogin()\<close>\<close>
  | ForceLogin world
  | CredentialsChanged
  | LoadState "js_error + persisted"

fun fire :: "event \<Rightarrow> auth_state \<Rightarrow> auth_state \<times> effect list" where
  "fire (Alarm paused w) s = (if \<not> paused then checkAndLogin False w s else (s, []))"
| "fire (TimerCheckAndLogin w) s = checkAndLogin False w s"
| "fire (TimerPerformLogin w) s = performLogin w s"
| "fire (ForceLogin w) s = fst (forceLoginMessage w s)"
| "fire CredentialsChanged s = credentialsChanged s"
| "fire (LoadState stored) s = loadState stored s"

fun run :: "event list \<Rightarrow> auth_state \<Rightarrow> auth_state" where
  "run [] s = s"
| "run (ev # evs) s = run evs (fst (fire ev s))"

inductive reachable :: "auth_state \<Rightarrow> bool" where
  start: "reachable initial_state"
| step: "reachable s \<Longrightarrow> reachable (fst (fire ev s))"

section \<open>The credential vault (crypto-utils.js)\<close>

text \<open>
  \<^verbatim>\<open>CredentialManager\<close> builds on functions of the platform, which are parameters here:
  \<^verbatim>\<open>crypto.subtle.encrypt\<close> and \<^verbatim>\<open>decrypt\<close> with AES-GCM (the latter rejects with an
  \<^verbatim>\<open>OperationError\<close> when the tag does not verify), \<^verbatim>\<open>btoa\<close> over
  \<^verbatim>\<open>String.fromCharCode\<close> and \<^verbatim>\<open>atob\<close> with \<^verbatim>\<open>charCodeAt\<close>, \<^verbatim>\<open>JSON.stringify\<close> of the
  three-field object, \<^verbatim>\<open>JSON.parse\<close> followed by the reads of \<^verbatim>\<open>.username\<close> and
  \<^verbatim>\<open>.password\<close> (a missing or falsy field reads as the empty string), and the UTF-8
  \<^verbatim>\<open>TextEncoder\<close> and \<^verbatim>\<open>TextDecoder\<close>. The key is what \<^verbatim>\<open>getEncryptionKey\<close> resolves to,
  or its rejection; the nonce is the draw of \<^verbatim>\<open>crypto.getRandomValues\<close>.
\<close>

type_synonym byte = "8 word"

record cred_payload =
  p_username :: string
  p_password :: string
  p_version :: string

record 'k platform =
  subtle_encrypt :: "'k \<Rightarrow> byte list \<Rightarrow> byte list \<Rightarrow> byte list"
  subtle_decrypt :: "'k \<Rightarrow> byte list \<Rightarrow> byte list \<Rightarrow> js_error + byte list"
  btoa_bytes :: "byte list \<Rightarrow> string"
  atob_bytes :: "string \<Rightarrow> js_error + byte list"
  JSON_stringify :: "cred_payload \<Rightarrow> string"
  JSON_parse :: "string \<Rightarrow> js_error + cred_payload"
  encode :: "string \<Rightarrow> byte list"
  decode :: "byte list \<Rightarrow> string"

definition ivLength :: nat where
  "ivLength = 12"

text \<open>\<^verbatim>\<open>String.prototype.trim\<close>: white space and line terminators off both ends.\<close>

definition trim :: "string \<Rightarrow> string" where
  "trim str = rev (dropWhile is_space (rev (dropWhile is_space str)))"

definition encryptCredentials_try ::
  "'k platform \<Rightarrow> js_error + 'k \<Rightarrow> byte list \<Rightarrow> int \<Rightarrow> string \<Rightarrow> string \<Rightarrow> js_error + encrypted_blob"
where
  "encryptCredentials_try P key iv now usr pwd =
     (if usr = [] \<or> pwd = [] then Inl (Error_of ''Username and password are required'')
      else
        (case key of
           Inl e \<Rightarrow> Inl e
         | Inr k \<Rightarrow>
             (let creds = JSON_stringify P
                            \<lparr>p_username = trim usr, p_password = pwd, p_version = ''1.0''\<rparr>;
                  encrypted = subtle_encrypt P k iv (encode P creds);
                  combined = iv @ encrypted
              in Inr \<lparr>data = btoa_bytes P combined, timestamp = now, version = ''1.0''\<rparr>)))"

definition encryptCredentials ::
  "'k platform \<Rightarrow> js_error + 'k \<Rightarrow> byte list \<Rightarrow> int \<Rightarrow> string \<Rightarrow> string \<Rightarrow> js_error + encrypted_blob"
where
  "encryptCredentials P key iv now usr pwd =
     (case encryptCredentials_try P key iv now usr pwd of
        Inl e \<Rightarrow> Inl (Error_of (''Failed to encrypt credentials: '' @ err_message e))
      | Inr result \<Rightarrow> Inr result)"

definition decryptCredentials_try ::
  "'k platform \<Rightarrow> js_error + 'k \<Rightarrow> encrypted_blob option \<Rightarrow> js_error + credentials option"
where
  "decryptCredentials_try P key encryptedData =
     (case encryptedData of
        None \<Rightarrow> Inr None
      | Some blob \<Rightarrow>
          if data blob = [] then Inr None
          else
            (case key of
               Inl e \<Rightarrow> Inl e
             | Inr k \<Rightarrow>
                 (case atob_bytes P (data blob) of
                    Inl e \<Rightarrow> Inl (Error_of ''Invalid encrypted data format'')
                  | Inr combined \<Rightarrow>
                      if length combined < ivLength then Inl (Error_of ''Encrypted data is too short'')
                      else
                        (let iv = take ivLength combined;
                             encrypted = drop ivLength combined
                         in case subtle_decrypt P k iv encrypted of
                              Inl e \<Rightarrow> Inl e
                            | Inr decrypted \<Rightarrow>
                                (case JSON_parse P (decode P decrypted) of
                                   Inl e \<Rightarrow> Inl e
                                 | Inr creds \<Rightarrow>
                                     if p_username creds = [] \<or> p_password creds = []
                                     then Inl (Error_of ''Invalid credentials structure'')
                                     else Inr (Some \<lparr>username = p_username creds,
                                                     password = p_password creds\<rparr>))))))"

definition decryptCredentials ::
  "'k platform \<Rightarrow> js_error + 'k \<Rightarrow> encrypted_blob option \<Rightarrow> js_error + credentials option"
where
  "decryptCredentials P key encryptedData =
     (case decryptCredentials_try P key encryptedData of
        Inl e \<Rightarrow>
          if err_name e = ''OperationError'' then
            Inl (Error_of ''Invalid credentials or corrupted data'')
          else if includes_str (err_message e) ''JSON'' then
            Inl (Error_of ''Corrupted credential data'')
          else Inl (Error_of (''Failed to decrypt credentials: '' @ err_message e))
      | Inr result \<Rightarrow> Inr result)"

text \<open>
  What the vault needs of the platform: decryption inverts encryption under the same key
  and nonce, \<^verbatim>\<open>atob\<close> inverts \<^verbatim>\<open>btoa\<close> (whose output for a non-empty input is not
  empty), and parsing the decoded, encoded JSON text gives the object back.
\<close>

definition faithful_platform :: "'k platform \<Rightarrow> bool" where
  "faithful_platform P =
     ((\<forall>k iv m. subtle_decrypt P k iv (subtle_encrypt P k iv m) = Inr m)
      \<and> (\<forall>bs. atob_bytes P (btoa_bytes P bs) = Inr bs)
      \<and> (\<forall>bs. bs \<noteq> [] \<longrightarrow> btoa_bytes P bs \<noteq> [])
      \<and> (\<forall>x. JSON_parse P (decode P (encode P (JSON_stringify P x))) = Inr x))"

text \<open>
  A small platform to run the vault on: the key is a number and the cipher appends it as
  a one-byte tag, which decryption checks; bytes and characters are converted one to
  one; the object is written with the lengths of its first two fields in unary.
\<close>

definition toy_parse :: "string \<Rightarrow> cred_payload" where
  "toy_parse str =
     (let n = length (takeWhile (\<lambda>c. c = CHR ''u'') str);
          r1 = drop (Suc n) str;
          m = length (takeWhile (\<lambda>c. c = CHR ''p'') r1);
          r2 = drop (Suc m) r1
      in \<lparr>p_username = take n r2, p_password = take m (drop n r2), p_version = drop (n + m) r2\<rparr>)"

definition toy_platform :: "nat platform" where
  "toy_platform =
     \<lparr>subtle_encrypt = (\<lambda>k iv m. m @ [of_nat k]),
      subtle_decrypt = (\<lambda>k iv c. if c \<noteq> [] \<and> last c = of_nat k then Inr (butlast c)
                                  else Inl (JsError ''OperationError'' [])),
      btoa_bytes = map (\<lambda>b. char_of (unat b)),
      atob_bytes = (\<lambda>str. Inr (map (\<lambda>c. of_nat (of_char c)) str)),
      JSON_stringify = (\<lambda>x. replicate (length (p_username x)) CHR ''u'' @ ''|''
                              @ replicate (length (p_password x)) CHR ''p'' @ ''|''
                              @ p_username x @ p_password x @ p_version x),
      JSON_parse = (\<lambda>str. Inr (toy_parse str)),
      encode = map (\<lambda>c. of_nat (of_char c)),
      decode = map (\<lambda>b. char_of (unat b))\<rparr>"

section \<open>Notions used in the statements\<close>

text \<open>
  The form \<^verbatim>\<open>performLogin\<close> submits for given credentials and login page, and the
  state once the time-out hint of the page has been taken over.
\<close>

definition submitted_form :: "credentials \<Rightarrow> string \<Rightarrow> login_form" where
  "submitted_form creds html =
     \<lparr>f_username = username creds, f_password = password creds,
      f_magic = the (magic (extractFormData html)), f_4Tredir = tredir (extractFormData html)\<rparr>"

definition after_detection :: "auth_state \<Rightarrow> string \<Rightarrow> auth_state" where
  "after_detection s html = s\<lparr>sessionTimeout := the (detectSessionTimeout s html)\<rparr>"

text \<open>Encrypting a pair and decrypting the result under the same key.\<close>

definition decrypt_after_encrypt ::
  "'k platform \<Rightarrow> 'k \<Rightarrow> byte list \<Rightarrow> int \<Rightarrow> string \<Rightarrow> string \<Rightarrow> js_error + credentials option"
where
  "decrypt_after_encrypt P k iv now usr pwd =
     (case encryptCredentials P (Inr k) iv now usr pwd of
        Inl e \<Rightarrow> Inl e
      | Inr blob \<Rightarrow> decryptCredentials P (Inr k) (Some blob))"

text \<open>A pattern whose capture groups take at least one character.\<close>

definition plus_captures :: "item list \<Rightarrow> bool" where
  "plus_captures its = (\<forall>it \<in> set its. is_capture it \<longrightarrow> item_quant it \<noteq> Star)"

text \<open>
  What one trigger can do to the counter and the status: reach Connected with the counter
  at 0; reject the credentials with the counter at 0; leave the counter alone; climb one
  rung below the top of the ladder; give up at the top with the counter back at 0 and
  nothing scheduled; or reset on a change of the stored credentials.
\<close>

definition counter_step :: "event \<Rightarrow> auth_state \<Rightarrow> auth_state \<Rightarrow> effect list \<Rightarrow> bool" where
  "counter_step ev s s' effs =
     ((status s' = Connected \<and> retryCount s' = 0)
      \<or> (status s' = Error \<and> lastError s' = Some ''Invalid credentials'' \<and> retryCount s' = 0)
      \<or> (retryCount s' = retryCount s \<and> (status s' = status s \<or> status s' = Error))
      \<or> (retryCount s < 4 \<and> retryCount s' = retryCount s + 1
           \<and> (status s' = Error \<or> status s' = NetworkDown))
      \<or> (4 \<le> retryCount s \<and> retryCount s' = 0 \<and> effs = []
           \<and> (status s' = Error \<or> status s' = NetworkDown))
      \<or> (ev = CredentialsChanged \<and> status s' = Idle \<and> retryCount s' = 0))"

section \<open>A sample portal\<close>

text \<open>
  A login page carrying the token and a keep-alive hint of 30 minutes, and a world in
  which the probe of the outer network fails, the portal answers, credentials are
  stored and decrypt, and the portal redirects after the form is submitted.
\<close>

definition sample_page :: string where
  "sample_page = ''<input name='' @ [dquote] @ ''magic'' @ [dquote] @ '' value='' @ [dquote]
                   @ ''a1b2'' @ [dquote] @ ''> keepalive=30''"

definition sample_world :: world where
  "sample_world =
     \<lparr>w_external = Inl (JsError ''TypeError'' ''Failed to fetch''),
      w_portal = Inr \<lparr>resp_status = 200, resp_text = Inr []\<rparr>,
      w_now = 1000,
      w_storedCreds = Inr (Some \<lparr>data = ''AAAA'', timestamp = 500, version = ''1.0''\<rparr>),
      w_decryptCredentials = (\<lambda>blob. Inr (Some \<lparr>username = ''alice'', password = ''secret''\<rparr>)),
      w_loginPage = Inr \<lparr>resp_status = 200, resp_text = Inr sample_page\<rparr>,
      w_loginPost = (\<lambda>form. Inr \<lparr>resp_status = 303, resp_text = Inr []\<rparr>),
      w_loginNow = 2000\<rparr>"

text \<open>The login page without the hint.\<close>

definition plain_page :: string where
  "plain_page = ''<input name='' @ [dquote] @ ''magic'' @ [dquote] @ '' value='' @ [dquote]
                  @ ''a1b2'' @ [dquote] @ ''>''"

text \<open>
  Two variations: the portal answers the form with a page that greets and rejects at
  once; the request for the login page fails in the network.
\<close>

definition rejecting_world :: world where
  "rejecting_world =
     sample_world\<lparr>w_loginPost :=
       (\<lambda>form. Inr \<lparr>resp_status = 200, resp_text = Inr ''Welcome! Invalid login''\<rparr>)\<rparr>"

definition failing_world :: world where
  "failing_world = sample_world\<lparr>w_loginPage := Inl (JsError ''TypeError'' ''Failed to fetch'')\<rparr>"

text \<open>The request for the login page is aborted by its 10-second timer.\<close>

definition timeout_world :: world where
  "timeout_world =
     sample_world\<lparr>w_loginPage := Inl (JsError ''AbortError'' ''The user aborted a request.'')\<rparr>"

text \<open>
  A blob written under key 7 of the small platform, and a world that holds it while the
  vault now derives key 8 (another salt or installation).
\<close>

definition stored_blob :: encrypted_blob where
  "stored_blob =
     \<lparr>data = btoa_bytes toy_platform
               (replicate 12 0 @ subtle_encrypt toy_platform 7 (replicate 12 0)
                  (encode toy_platform (JSON_stringify toy_platform
                     \<lparr>p_username = ''alice'', p_password = ''secret'', p_version = ''1.0''\<rparr>))),
      timestamp = 500, version = ''1.0''\<rparr>"

definition undecryptable_world :: world where
  "undecryptable_world =
     sample_world\<lparr>w_storedCreds := Inr (Some stored_blob),
                  w_decryptCredentials := (\<lambda>blob. decryptCredentials toy_platform (Inr 8) (Some blob))\<rparr>"

section \<open>Properties\<close>

subsection \<open>State updates and the ladder\<close>

lemma updateState_simps:
  "status (updateState u s) = (case u_status u of None \<Rightarrow> status s | Some v \<Rightarrow> v)"
  "lastError (updateState u s) = (case u_lastError u of None \<Rightarrow> lastError s | Some v \<Rightarrow> v)"
  "lastLoginAt (updateState u s) = (case u_lastLoginAt u of None \<Rightarrow> lastLoginAt s | Some v \<Rightarrow> Some v)"
  "nextRenewAt (updateState u s) = (case u_nextRenewAt u of None \<Rightarrow> nextRenewAt s | Some v \<Rightarrow> Some v)"
  "isConnected (updateState u s) = (case u_isConnected u of None \<Rightarrow> isConnected s | Some v \<Rightarrow> v)"
  "retryCount (updateState u s) = (case u_retryCount u of None \<Rightarrow> retryCount s | Some v \<Rightarrow> v)"
  "sessionTimeout (updateState u s) = (case u_sessionTimeout u of None \<Rightarrow> sessionTimeout s | Some v \<Rightarrow> v)"
  by (simp_all add: updateState_def)

lemma enter_checking:
  "updateState (no_updates\<lparr>u_status := Some Checking\<rparr>) s = s\<lparr>status := Checking\<rparr>"
  by (cases s) (simp add: updateState_def no_updates_def)

lemma length_RETRY_DELAYS: "length RETRY_DELAYS = 4"
  by (simp add: RETRY_DELAYS_def)

lemma RETRY_DELAYS_nth:
  "RETRY_DELAYS ! 0 = 5" "RETRY_DELAYS ! Suc 0 = 15" "RETRY_DELAYS ! 2 = 45" "RETRY_DELAYS ! 3 = 120"
  by (simp_all add: RETRY_DELAYS_def)

lemma ladder: 
  assumes "n < 4"
  shows "RETRY_DELAYS ! n * 1000 = [5000, 15000, 45000, 120000] ! n"
proof -
  from assms have "n = 0 \<or> n = 1 \<or> n = 2 \<or> n = 3" by arith
  then show ?thesis by (auto simp: RETRY_DELAYS_def)
qed

subsection \<open>Strings and patterns\<close>

text \<open>
  \<open>includes_str\<close> is the substring relation, so a body has an indicator exactly when
  its lower-case form contains one of the keywords.
\<close>

lemma includes_str_sublist: "includes_str hay needle = sublist needle hay"
  by (induction hay) (auto simp: sublist_Cons_right)

lemma hasError_iff:
  "hasError text =
     (\<exists>k \<in> set [''invalid'', ''failed'', ''incorrect'', ''error'', ''login-form''].
        sublist k (toLowerCase text))"
  by (simp add: hasError_def errorIndicators_def includes_str_sublist)

lemma hasSuccess_iff:
  "hasSuccess text =
     (\<exists>k \<in> set [''keepalive'', ''logout'', ''success'', ''welcome''].
        sublist k (toLowerCase text))"
  by (simp add: hasSuccess_def successIndicators_def includes_str_sublist)

text \<open>
  The detector always returns a number: the first pattern that matches decides,
  otherwise the current value of the state.
\<close>

lemma detectSessionTimeout_number: "detectSessionTimeout s html \<noteq> None"
proof -
  have "detect_loop ps s html \<noteq> None" for ps
    by (induction ps) (auto simp: Let_def split: option.splits)
  then show ?thesis by (simp add: detectSessionTimeout_def)
qed

lemma detect_loop_first_match:
  "detect_loop ps s html =
     (case first_match ps html of
        Some m \<Rightarrow> Some (if parseInt m < 60 then parseInt m * 60 else parseInt m)
      | None \<Rightarrow> Some (sessionTimeout s))"
  by (induction ps) (simp_all add: Let_def split: option.splits)

text \<open>
  A token that was extracted is not empty, so the check for a falsy token never fires
  on it.
\<close>

lemma counts_bounds:
  assumes "k \<in> set (counts it str)" and "item_quant it \<noteq> Star"
  shows "1 \<le> k \<and> k \<le> length str"
proof -
  have "length (takeWhile (cc_match (item_class it)) str) \<le> length str"
    by (rule length_takeWhile_le)
  with assms show ?thesis
    by (cases "item_quant it") (auto simp: counts_def Let_def split: if_splits)
qed

lemma matchHere_capture_nonempty:
  assumes "plus_captures its" and "cap \<noteq> [] \<or> (\<exists>it \<in> set its. is_capture it)"
    and "x \<in> set (matchHere its str cap)"
  shows "x \<noteq> []"
  using assms
proof (induction its arbitrary: str cap)
  case Nil
  then show ?case by simp
next
  case (Cons it its)
  from Cons.prems(3) obtain k where k: "k \<in> set (counts it str)"
    and x: "x \<in> set (matchHere its (drop k str) (if is_capture it then take k str else cap))"
    by auto
  have its: "plus_captures its"
    using Cons.prems(1) by (simp add: plus_captures_def)
  show ?case
  proof (cases "is_capture it")
    case True
    then have "item_quant it \<noteq> Star"
      using Cons.prems(1) by (simp add: plus_captures_def)
    with k have "1 \<le> k \<and> k \<le> length str" by (rule counts_bounds)
    then have "take k str \<noteq> []" by auto
    with Cons.IH [OF its _ x] True show ?thesis by simp
  next
    case False
    with Cons.prems(2) have "cap \<noteq> [] \<or> (\<exists>it \<in> set its. is_capture it)" by auto
    with Cons.IH [OF its _ x] False show ?thesis by simp
  qed
qed

lemma match1_nonempty:
  assumes "plus_captures re" and "\<exists>it \<in> set re. is_capture it" and "match1 re str = Some m"
  shows "m \<noteq> []"
  using assms(3)
proof (induction str)
  case Nil
  then have "m \<in> set (matchHere re [] [])" by (auto split: list.splits)
  then show ?case by (rule matchHere_capture_nonempty [OF assms(1) disjI2 [OF assms(2)]])
next
  case (Cons c cs)
  show ?case
  proof (cases "matchHere re (c # cs) []")
    case Nil
    with Cons show ?thesis by simp
  next
    case (Cons cap rest)
    with Cons.prems have "m \<in> set (matchHere re (c # cs) [])" by simp
    then show ?thesis by (rule matchHere_capture_nonempty [OF assms(1) disjI2 [OF assms(2)]])
  qed
qed

lemma first_match_nonempty:
  assumes "\<forall>re \<in> set res. plus_captures re \<and> (\<exists>it \<in> set re. is_capture it)"
    and "first_match res html = Some m"
  shows "m \<noteq> []"
  using assms
  by (induction res) (auto split: option.splits dest: match1_nonempty)

lemma magic_nonempty: "magic (extractFormData html) = Some m \<Longrightarrow> m \<noteq> []"
proof -
  have "\<forall>re \<in> set (field_patterns ''magic''). plus_captures re \<and> (\<exists>it \<in> set re. is_capture it)"
    by (simp add: field_patterns_def plus_captures_def lits_def lit_def)
  then show "magic (extractFormData html) = Some m \<Longrightarrow> m \<noteq> []"
    by (auto simp: extractFormData_def dest: first_match_nonempty)
qed

subsection \<open>The stages of a login attempt\<close>

text \<open>
  An attempt that throws has changed nothing but, possibly, \<^verbatim>\<open>sessionTimeout\<close>, and
  has left no effect behind.
\<close>

lemma check_thrown:
  "performLogin_check w s r = ((s1, effs), Some e) \<Longrightarrow> s1 = s \<and> effs = []"
  by (auto simp: performLogin_check_def loginSucceeded_def throw_def Let_def
           split: if_splits sum.splits)

lemma request_thrown:
  "performLogin_request w s c = ((s1, effs), Some e) \<Longrightarrow>
     retryCount s1 = retryCount s \<and> status s1 = status s \<and> lastError s1 = lastError s
     \<and> isConnected s1 = isConnected s \<and> lastLoginAt s1 = lastLoginAt s
     \<and> nextRenewAt s1 = nextRenewAt s \<and> effs = []"
  by (auto simp: performLogin_request_def throw_def Let_def updateState_simps no_updates_def
           split: if_splits sum.splits option.splits dest!: check_thrown)

lemma try_thrown:
  "performLogin_try w s = ((s1, effs), Some e) \<Longrightarrow>
     retryCount s1 = retryCount s \<and> status s1 = status s \<and> lastError s1 = lastError s
     \<and> isConnected s1 = isConnected s \<and> lastLoginAt s1 = lastLoginAt s
     \<and> nextRenewAt s1 = nextRenewAt s \<and> effs = []"
  by (auto simp: performLogin_try_def throw_def credentialsProblem_def
           split: if_splits sum.splits option.splits dest!: request_thrown)

text \<open>
  With credentials at hand, a page fetched and a token found, the attempt is decided by
  the portal's answer to the form. A network error on the way and an answer that is
  neither a success nor a rejection both end in an exception.
\<close>

lemma try_submitted:
  assumes "w_storedCreds w = Inr (Some blob)"
    and "w_decryptCredentials w blob = Inr (Some creds)"
    and "username creds \<noteq> []" and "password creds \<noteq> []"
    and "w_loginPage w = Inr page" and "ok page" and "resp_text page = Inr html"
    and "magic (extractFormData html) = Some m"
    and "w_loginPost w (submitted_form creds html) = Inr r"
  shows "performLogin_try w s = performLogin_check w (after_detection s html) r"
proof -
  obtain d where d: "detectSessionTimeout s html = Some d"
    using detectSessionTimeout_number [of s html] by auto
  have s1: "(if d \<noteq> sessionTimeout s
             then updateState (no_updates\<lparr>u_sessionTimeout := Some d\<rparr>) s else s)
            = after_detection s html"
    by (simp add: after_detection_def d updateState_def no_updates_def)
  have m: "m \<noteq> []" using assms(8) by (rule magic_nonempty)
  show ?thesis
    using assms m d s1
    by (simp add: performLogin_try_def performLogin_request_def submitted_form_def Let_def)
qed

lemma try_login_page_rejected:
  assumes "w_storedCreds w = Inr (Some blob)"
    and "w_decryptCredentials w blob = Inr (Some creds)"
    and "username creds \<noteq> []" and "password creds \<noteq> []"
    and "w_loginPage w = Inl e"
  shows "performLogin_try w s = ((s, []), Some e)"
  using assms by (simp add: performLogin_try_def performLogin_request_def throw_def)

lemma try_ambiguous:
  assumes "w_storedCreds w = Inr (Some blob)"
    and "w_decryptCredentials w blob = Inr (Some creds)"
    and "username creds \<noteq> []" and "password creds \<noteq> []"
    and "w_loginPage w = Inr page" and "ok page" and "resp_text page = Inr html"
    and "magic (extractFormData html) = Some m"
    and "w_loginPost w (submitted_form creds html) = Inr r"
    and "resp_status r \<noteq> 302" and "resp_status r \<noteq> 303"
    and "ok r \<longrightarrow> (\<exists>text. resp_text r = Inr text \<and> \<not> hasSuccess text \<and> \<not> hasError text)"
  shows "performLogin_try w s = ((after_detection s html, []), Some unexpectedResponse)"
  using try_submitted [OF assms(1-9)] assms(10-12)
  by (auto simp: performLogin_check_def throw_def)

text \<open>
  Only the hint of the login page changes \<^verbatim>\<open>sessionTimeout\<close>.
\<close>

lemma check_sessionTimeout:
  "sessionTimeout (fst (fst (performLogin_check w s r))) = sessionTimeout s"
  by (simp add: performLogin_check_def loginSucceeded_def throw_def Let_def updateState_simps
                no_updates_def split: sum.splits)

lemma catch_sessionTimeout:
  "sessionTimeout (fst (performLogin_catch e s)) = sessionTimeout s"
  by (simp add: performLogin_catch_def Let_def updateState_simps no_updates_def)

lemma request_sessionTimeout:
  assumes "w_loginPage w = Inr page" and "resp_text page = Inr html"
    and "detectSessionTimeout s html = Some (sessionTimeout s)"
  shows "sessionTimeout (fst (fst (performLogin_request w s c))) = sessionTimeout s"
  using assms
  by (simp add: performLogin_request_def throw_def Let_def check_sessionTimeout
           split: sum.splits option.splits)

lemma try_sessionTimeout:
  assumes "w_loginPage w = Inr page" and "resp_text page = Inr html"
    and "detectSessionTimeout s html = Some (sessionTimeout s)"
  shows "sessionTimeout (fst (fst (performLogin_try w s))) = sessionTimeout s"
  using request_sessionTimeout [OF assms]
  by (simp add: performLogin_try_def throw_def credentialsProblem_def updateState_simps
                no_updates_def split: sum.splits option.splits)

lemma performLogin_sessionTimeout:
  assumes "w_loginPage w = Inr page" and "resp_text page = Inr html"
    and "detectSessionTimeout s html = Some (sessionTimeout s)"
  shows "sessionTimeout (fst (performLogin w s)) = sessionTimeout s"
proof (cases "performLogin_try w s")
  case (Pair se r)
  obtain s1 effs where se: "se = (s1, effs)" by (cases se)
  have s1: "sessionTimeout s1 = sessionTimeout s"
    using try_sessionTimeout [OF assms] Pair se by simp
  show ?thesis
  proof (cases r)
    case None
    with Pair se s1 show ?thesis by (simp add: performLogin_def)
  next
    case (Some e)
    with Pair se s1 catch_sessionTimeout [of e s1] show ?thesis
      by (cases "performLogin_catch e s1") (simp add: performLogin_def)
  qed
qed

text \<open>
  How an attempt can end, as far as the status and the counter go.
\<close>

lemma check_done:
  assumes "performLogin_check w s r = ((s1, effs), None)"
  shows "(status s1 = Connected \<and> retryCount s1 = 0)
       \<or> (status s1 = Error \<and> lastError s1 = Some ''Invalid credentials'' \<and> retryCount s1 = 0)"
  using assms
  by (auto simp: performLogin_check_def loginSucceeded_def throw_def Let_def updateState_simps
                 no_updates_def split: if_splits sum.splits)

lemma request_done:
  assumes "performLogin_request w s c = ((s1, effs), None)"
  shows "(status s1 = Connected \<and> retryCount s1 = 0)
       \<or> (status s1 = Error \<and> lastError s1 = Some ''Invalid credentials'' \<and> retryCount s1 = 0)"
  using assms
  by (auto simp: performLogin_request_def throw_def Let_def
           split: if_splits sum.splits option.splits dest: check_done)

lemma try_done:
  assumes "performLogin_try w s = ((s1, effs), None)"
  shows "(status s1 = Connected \<and> retryCount s1 = 0)
       \<or> (status s1 = Error \<and> lastError s1 = Some ''Invalid credentials'' \<and> retryCount s1 = 0)
       \<or> (status s1 = Error \<and> retryCount s1 = retryCount s)"
  using assms
  by (auto simp: performLogin_try_def throw_def credentialsProblem_def updateState_simps
                 no_updates_def
           split: if_splits sum.splits option.splits dest: request_done)

lemma catch_cases:
  assumes "performLogin_catch e s = (s', effs)"
  shows "status s' = Error
       \<and> (retryCount s' = retryCount s
          \<or> (retryCount s < 4 \<and> retryCount s' = retryCount s + 1)
          \<or> (4 \<le> retryCount s \<and> retryCount s' = 0 \<and> effs = []))"
  using assms
  by (auto simp: performLogin_catch_def Let_def updateState_simps no_updates_def
                 length_RETRY_DELAYS split: if_splits)

lemma performLogin_cases:
  assumes "performLogin w s = (s', effs)"
  shows "(status s' = Connected \<and> retryCount s' = 0)
       \<or> (status s' = Error \<and> lastError s' = Some ''Invalid credentials'' \<and> retryCount s' = 0)
       \<or> (status s' = Error \<and> retryCount s' = retryCount s)
       \<or> (status s' = Error \<and> retryCount s < 4 \<and> retryCount s' = retryCount s + 1)
       \<or> (status s' = Error \<and> 4 \<le> retryCount s \<and> retryCount s' = 0 \<and> effs = [])"
proof (cases "performLogin_try w s")
  case (Pair se r)
  obtain s1 effs1 where se: "se = (s1, effs1)" by (cases se)
  show ?thesis
  proof (cases r)
    case None
    with Pair se assms have "s' = s1" by (simp add: performLogin_def)
    with try_done [of w s s1 effs1] Pair se None show ?thesis by auto
  next
    case (Some e)
    with Pair se have t: "performLogin_try w s = ((s1, effs1), Some e)" by simp
    from try_thrown [OF t] have rc: "retryCount s1 = retryCount s" and e1: "effs1 = []" by simp_all
    obtain s2 effs2 where c: "performLogin_catch e s1 = (s2, effs2)"
      by (cases "performLogin_catch e s1")
    with t assms e1 have "s' = s2" "effs = effs2" by (simp_all add: performLogin_def)
    with catch_cases [OF c] rc show ?thesis by auto
  qed
qed

text \<open>
  A forced cycle skips the probe. Missing credentials are reported and not retried; an
  exception thrown by the decryption is retried like any other.
\<close>

lemma checkAndLogin_forced:
  "checkAndLogin True w s = performLogin w (s\<lparr>status := Checking\<rparr>)"
  by (simp add: checkAndLogin_def Let_def enter_checking)

lemma missing_credentials_not_retried:
  assumes "w_storedCreds w = Inr None"
  shows "performLogin w s =
           (updateState (no_updates\<lparr>u_status := Some Error,
                                      u_lastError := Some (Some ''Credentials not configured''),
                                      u_isConnected := Some False\<rparr>) s,
            [ShowCredentialsNotification])"
  using assms by (simp add: performLogin_def performLogin_try_def credentialsProblem_def)

lemma decrypt_failure_retried:
  assumes "w_storedCreds w = Inr (Some blob)" and "w_decryptCredentials w blob = Inl e"
    and "err_name e \<noteq> ''AbortError''" and "retryCount s < 4"
  shows "performLogin w s =
           (updateState (no_updates\<lparr>u_status := Some Error,
                                      u_lastError := Some (Some (err_message e)),
                                      u_retryCount := Some (retryCount s + 1)\<rparr>) s,
            [SetTimeout PerformLogin (RETRY_DELAYS ! retryCount s * 1000)])"
  using assms
  by (simp add: performLogin_def performLogin_try_def throw_def performLogin_catch_def
                length_RETRY_DELAYS Let_def)

subsection \<open>Triggers and reachable states\<close>

lemma handleNetworkDown_cases:
  assumes "handleNetworkDown s = (s', effs)"
  shows "status s' = NetworkDown
       \<and> ((retryCount s < 4 \<and> retryCount s' = retryCount s + 1)
          \<or> (4 \<le> retryCount s \<and> retryCount s' = 0 \<and> effs = []))"
  using assms
  by (auto simp: handleNetworkDown_def Let_def updateState_simps no_updates_def
                 length_RETRY_DELAYS split: if_splits)

lemma checkAndLogin_cases:
  assumes "checkAndLogin forced w s = (s', effs)"
  shows "counter_step ev s s' effs"
proof -
  let ?s0 = "s\<lparr>status := Checking\<rparr>"
  have rc: "retryCount ?s0 = retryCount s" by simp
  consider (conn) "s' = updateState (no_updates\<lparr>u_status := Some Connected,
                                        u_isConnected := Some True,
                                        u_lastError := Some None,
                                        u_retryCount := Some 0\<rparr>) ?s0"
    | (down) "handleNetworkDown ?s0 = (s', effs)"
    | (login) "performLogin w ?s0 = (s', effs)"
    using assms by (auto simp: checkAndLogin_def Let_def enter_checking split: if_splits)
  then show ?thesis
  proof cases
    case conn
    then show ?thesis by (simp add: counter_step_def updateState_simps no_updates_def)
  next
    case down
    from handleNetworkDown_cases [OF down] rc show ?thesis
      by (auto simp: counter_step_def)
  next
    case login
    from performLogin_cases [OF login] rc show ?thesis
      by (auto simp: counter_step_def)
  qed
qed

lemma loadState_same:
  assumes "loadState stored s = (s', effs)"
  shows "status s' = status s \<and> retryCount s' = retryCount s"
proof (cases stored)
  case (Inl e)
  with assms show ?thesis by (simp add: loadState_def)
next
  case (Inr d)
  with assms have "s' = (let s1 = (if truthy (p_lastLoginAt d) then s\<lparr>lastLoginAt := p_lastLoginAt d\<rparr> else s);
               s2 = (if truthy (p_nextRenewAt d) then s1\<lparr>nextRenewAt := p_nextRenewAt d\<rparr> else s1)
           in (if truthy (p_sessionTimeout d)
                     then s2\<lparr>sessionTimeout := the (p_sessionTimeout d)\<rparr> else s2))"
    by (simp add: loadState_def Let_def)
  then show ?thesis by (simp add: Let_def)
qed

lemma fire_cases:
  assumes "fire ev s = (s', effs)"
  shows "counter_step ev s s' effs"
proof (cases ev)
  case (Alarm paused w)
  show ?thesis
  proof (cases paused)
    case True
    with Alarm assms show ?thesis by (auto simp: counter_step_def)
  next
    case False
    with Alarm assms show ?thesis by (auto intro: checkAndLogin_cases)
  qed
next
  case (TimerCheckAndLogin w)
  with assms show ?thesis by (auto intro: checkAndLogin_cases)
next
  case (TimerPerformLogin w)
  with assms performLogin_cases [of w s s' effs] show ?thesis
    by (auto simp: counter_step_def)
next
  case (ForceLogin w)
  show ?thesis
  proof (cases "status s = Connected \<or> status s = Checking")
    case True
    with ForceLogin assms show ?thesis
      by (auto simp: forceLoginMessage_def counter_step_def)
  next
    case False
    with ForceLogin assms have "checkAndLogin True w s = (s', effs)"
      by (simp add: forceLoginMessage_def)
    then show ?thesis by (rule checkAndLogin_cases)
  qed
next
  case CredentialsChanged
  show ?thesis
  proof (cases "lastError s = Some ''Credentials not configured''
                \<or> lastError s = Some ''Failed to decrypt credentials''
                \<or> lastError s = Some ''Invalid credentials''")
    case True
    then have "credentialsChanged s =
        (updateState (no_updates\<lparr>u_lastError := Some None, u_status := Some Idle,
                                  u_retryCount := Some 0\<rparr>) s, [SetTimeout CheckAndLogin 1000])"
      unfolding credentialsChanged_def by (rule if_P)
    with assms CredentialsChanged
    have "status s' = Idle" and "retryCount s' = 0"
      by (auto simp: updateState_simps no_updates_def)
    with CredentialsChanged show ?thesis by (simp add: counter_step_def)
  next
    case False
    then have "credentialsChanged s = (s, [])"
      unfolding credentialsChanged_def by (rule if_not_P)
    with assms CredentialsChanged have "s' = s" by simp
    then show ?thesis by (simp add: counter_step_def)
  qed
next
  case (LoadState stored)
  with assms have "loadState stored s = (s', effs)" by simp
  then have "status s' = status s \<and> retryCount s' = retryCount s" by (rule loadState_same)
  then show ?thesis by (simp add: counter_step_def)
qed

lemma reachable_invariant:
  assumes "reachable s"
  shows "retryCount s \<le> 4 \<and> (status s = Connected \<longrightarrow> retryCount s = 0)"
  using assms
proof (induction rule: reachable.induct)
  case start
  show ?case by (simp add: initial_state_def)
next
  case (step s ev)
  obtain s' effs where f: "fire ev s = (s', effs)" by (cases "fire ev s")
  from fire_cases [OF f] step.IH f show ?case
    by (auto simp: counter_step_def)
qed

lemma reachable_run: "reachable s \<Longrightarrow> reachable (run evs s)"
  by (induction evs arbitrary: s) (auto intro: reachable.step)

subsection \<open>The vault\<close>

text \<open>
  Decrypting what was encrypted under the same key gives the payload back; a failure
  is always thrown as an \<^verbatim>\<open>Error\<close>, and \<^verbatim>\<open>null\<close> is returned only for a missing blob or
  one without data.
\<close>

lemma structure_message: "\<not> includes_str ''Invalid credentials structure'' ''JSON''"
  by code_simp

lemma decrypt_of_encrypted:
  assumes "faithful_platform P" and "length iv = ivLength"
  shows "decryptCredentials_try P (Inr k)
           (Some \<lparr>data = btoa_bytes P (iv @ subtle_encrypt P k iv (encode P (JSON_stringify P x))),
                  timestamp = now, version = v\<rparr>)
         = (if p_username x = [] \<or> p_password x = []
            then Inl (Error_of ''Invalid credentials structure'')
            else Inr (Some \<lparr>username = p_username x, password = p_password x\<rparr>))"
proof -
  let ?c = "subtle_encrypt P k iv (encode P (JSON_stringify P x))"
  have iv: "iv \<noteq> []" using assms(2) by (auto simp: ivLength_def)
  from assms(1) have dec: "subtle_decrypt P k iv ?c = Inr (encode P (JSON_stringify P x))"
    and b64: "atob_bytes P (btoa_bytes P (iv @ ?c)) = Inr (iv @ ?c)"
    and nonempty: "btoa_bytes P (iv @ ?c) \<noteq> []"
    and json: "JSON_parse P (decode P (encode P (JSON_stringify P x))) = Inr x"
    using iv by (simp_all add: faithful_platform_def)
  show ?thesis
    using assms(2) dec b64 nonempty json
    by (simp add: decryptCredentials_try_def Let_def)
qed

lemma decryptCredentials_throws_Error:
  "decryptCredentials P key b = Inl e \<Longrightarrow> err_name e = ''Error''"
  by (auto simp: decryptCredentials_def Error_of_def split: sum.splits if_splits)

lemma decryptCredentials_null:
  "decryptCredentials P key b = Inr None \<longleftrightarrow> (b = None \<or> (\<exists>blob. b = Some blob \<and> data blob = []))"
  by (auto simp: decryptCredentials_def decryptCredentials_try_def Let_def
           split: sum.splits if_splits option.splits)

subsection \<open>The sample portal and the small platform, evaluated\<close>

lemma sample_page_magic: "magic (extractFormData sample_page) = Some ''a1b2''"
  by code_simp

lemma sample_page_timeout: "detectSessionTimeout s sample_page = Some 1800"
  by code_simp

lemma sample_page_hint: "first_match timeout_patterns sample_page = Some ''30''"
  by code_simp

lemma plain_page_hint: "first_match timeout_patterns plain_page = None"
  by code_simp

lemma parseInt_30: "parseInt ''30'' = 30"
  by code_simp

lemma try_page_unreachable:
  "performLogin_try (sample_world\<lparr>w_loginPage := Inl e\<rparr>) s = ((s, []), Some e)"
  by (simp add: performLogin_try_def performLogin_request_def sample_world_def throw_def)

lemma failing_try: "performLogin_try failing_world s = ((s, []), Some (JsError ''TypeError'' ''Failed to fetch''))"
  unfolding failing_world_def by (rule try_page_unreachable)

lemma timeout_try:
  "performLogin_try timeout_world s
     = ((s, []), Some (JsError ''AbortError'' ''The user aborted a request.''))"
  unfolding timeout_world_def by (rule try_page_unreachable)

lemma failing_login:
  "performLogin failing_world s = performLogin_catch (JsError ''TypeError'' ''Failed to fetch'') s"
  by (cases "performLogin_catch (JsError ''TypeError'' ''Failed to fetch'') s")
     (simp add: performLogin_def failing_try)

lemma one_failure:
  "fst (performLogin failing_world initial_state)
     = initial_state\<lparr>status := Error, lastError := Some ''Failed to fetch'', retryCount := 1\<rparr>"
  by (simp add: failing_login performLogin_catch_def length_RETRY_DELAYS Let_def
                updateState_def no_updates_def initial_state_def)

lemma sample_submitted:
  "performLogin_try sample_world s
     = performLogin_check sample_world (after_detection s sample_page)
         \<lparr>resp_status = 303, resp_text = Inr []\<rparr>"
  by (rule try_submitted [where blob = "\<lparr>data = ''AAAA'', timestamp = 500, version = ''1.0''\<rparr>"
        and creds = "\<lparr>username = ''alice'', password = ''secret''\<rparr>"
        and page = "\<lparr>resp_status = 200, resp_text = Inr sample_page\<rparr>" and m = "''a1b2''"])
     (simp_all add: sample_world_def ok_def sample_page_magic)

lemma rejecting_body: "sublist ''invalid'' (toLowerCase ''Welcome! Invalid login'')"
  unfolding includes_str_sublist [symmetric] by code_simp

lemma rejecting_hasError: "hasError ''Welcome! Invalid login''"
  unfolding hasError_iff using rejecting_body by simp

lemma rejecting_login:
  "performLogin rejecting_world s =
     (updateState (no_updates\<lparr>u_status := Some Error,
                                u_lastError := Some (Some ''Invalid credentials''),
                                u_isConnected := Some False,
                                u_retryCount := Some 0\<rparr>) (after_detection s sample_page),
      [ShowCredentialsNotification])"
proof -
  have "performLogin_try rejecting_world s
     = performLogin_check rejecting_world (after_detection s sample_page)
         \<lparr>resp_status = 200, resp_text = Inr ''Welcome! Invalid login''\<rparr>"
    by (rule try_submitted [where blob = "\<lparr>data = ''AAAA'', timestamp = 500, version = ''1.0''\<rparr>"
          and creds = "\<lparr>username = ''alice'', password = ''secret''\<rparr>"
          and page = "\<lparr>resp_status = 200, resp_text = Inr sample_page\<rparr>" and m = "''a1b2''"])
       (simp_all add: rejecting_world_def sample_world_def ok_def sample_page_magic)
  then show ?thesis
    by (simp add: performLogin_def performLogin_check_def ok_def rejecting_hasError)
qed

lemma toy_char_byte: "char_of (unat (of_nat (of_char c :: nat) :: byte)) = c"
  by (simp add: unat_of_nat)

lemma toy_byte_char: "(of_nat (unat (b::byte) mod 256) :: byte) = b"
proof -
  have "unat b < 256" using unsigned_less [of b, where ?'a = nat] by simp
  then show ?thesis by simp
qed

lemma takeWhile_replicate_other:
  "a \<noteq> b \<Longrightarrow> takeWhile (\<lambda>c. c = a) (replicate n a @ b # rest) = replicate n a"
  by (induction n) auto

lemma toy_parse_stringify: "toy_parse (JSON_stringify toy_platform x) = x"
  by (cases x) (simp add: toy_parse_def toy_platform_def takeWhile_replicate_other Let_def)

lemma faithful_toy: "faithful_platform toy_platform"
proof -
  have 1: "\<forall>k iv m. subtle_decrypt toy_platform k iv (subtle_encrypt toy_platform k iv m) = Inr m"
    by (simp add: toy_platform_def)
  have 2: "\<forall>bs. atob_bytes toy_platform (btoa_bytes toy_platform bs) = Inr bs"
    by (simp add: toy_platform_def comp_def toy_byte_char)
  have 3: "\<forall>bs. bs \<noteq> [] \<longrightarrow> btoa_bytes toy_platform bs \<noteq> []"
    by (simp add: toy_platform_def)
  have "\<forall>s. decode toy_platform (encode toy_platform s) = s"
    by (simp add: toy_platform_def comp_def toy_char_byte)
  moreover have "\<forall>x. JSON_parse toy_platform (JSON_stringify toy_platform x) = Inr x"
    using toy_parse_stringify by (simp add: toy_platform_def)
  ultimately have 4: "\<forall>x. JSON_parse toy_platform
      (decode toy_platform (encode toy_platform (JSON_stringify toy_platform x))) = Inr x"
    by simp
  show ?thesis unfolding faithful_platform_def using 1 2 3 4 by blast
qed

lemma trim_examples: "trim ''alice'' = ''alice''" "trim '' a'' = ''a''" "trim '' '' = []"
  by code_simp+

lemma stored_blob_right_key:
  "decryptCredentials toy_platform (Inr 7) (Some stored_blob)
     = Inr (Some \<lparr>username = ''alice'', password = ''secret''\<rparr>)"
proof -
  have len: "length (replicate 12 (0::byte)) = ivLength" by (simp add: ivLength_def)
  show ?thesis
    by (simp add: decryptCredentials_def stored_blob_def decrypt_of_encrypted [OF faithful_toy len])
qed

lemma stored_blob_wrong_key:
  "decryptCredentials toy_platform (Inr 8) (Some stored_blob)
     = Inl (Error_of ''Invalid credentials or corrupted data'')"
proof -
  let ?m = "encode toy_platform (JSON_stringify toy_platform
              \<lparr>p_username = ''alice'', p_password = ''secret'', p_version = ''1.0''\<rparr>)"
  let ?c = "replicate 12 (0::byte) @ subtle_encrypt toy_platform 7 (replicate 12 0) ?m"
  have b64: "atob_bytes toy_platform (btoa_bytes toy_platform ?c) = Inr ?c"
    and nonempty: "btoa_bytes toy_platform ?c \<noteq> []"
    using faithful_toy by (simp_all add: faithful_platform_def)
  have wrong: "subtle_decrypt toy_platform 8 (replicate 12 0)
                 (subtle_encrypt toy_platform 7 (replicate 12 0) ?m)
               = Inl (JsError ''OperationError'' [])"
    by (simp add: toy_platform_def)
  have "decryptCredentials_try toy_platform (Inr 8) (Some stored_blob)
          = Inl (JsError ''OperationError'' [])"
    using b64 nonempty wrong
    by (simp add: decryptCredentials_try_def stored_blob_def ivLength_def Let_def)
  then show ?thesis by (simp add: decryptCredentials_def)
qed

subsection \<open>Transient login failures\<close>

text \<open>
  C1 (as the code has it). When the \<^verbatim>\<open>try\<close> of \<^verbatim>\<open>performLogin\<close> ends in an exception
  \<^verbatim>\<open>e\<close> that is not an \<^verbatim>\<open>AbortError\<close> (a network error, an ambiguous answer of the
  portal, any other exception) and \<^verbatim>\<open>retryCount\<close> is below 4, the status becomes Error
  with the message of \<^verbatim>\<open>e\<close>, \<^verbatim>\<open>retryCount\<close> grows by exactly one and \<^verbatim>\<open>performLogin\<close>
  is scheduled again after 5, 15, 45 or 120 seconds, the value of the ladder at the
  prior \<^verbatim>\<open>retryCount\<close>. When \<^verbatim>\<open>e\<close> is an \<^verbatim>\<open>AbortError\<close> (a request timed out) the
  status becomes Error with the message "Login request timed out", \<^verbatim>\<open>retryCount\<close>
  stays as it was and nothing is scheduled.
\<close>

theorem C1_transient_failure:
  assumes "performLogin_try w s = ((s1, effs), Some e)"
  shows "(err_name e \<noteq> ''AbortError'' \<and> retryCount s < 4 \<longrightarrow>
            status (fst (performLogin w s)) = Error
          \<and> lastError (fst (performLogin w s)) = Some (err_message e)
          \<and> retryCount (fst (performLogin w s)) = retryCount s + 1
          \<and> snd (performLogin w s)
              = [SetTimeout PerformLogin ([5000, 15000, 45000, 120000] ! retryCount s)])
       \<and> (err_name e = ''AbortError'' \<longrightarrow>
            status (fst (performLogin w s)) = Error
          \<and> lastError (fst (performLogin w s)) = Some ''Login request timed out''
          \<and> retryCount (fst (performLogin w s)) = retryCount s
          \<and> snd (performLogin w s) = [])"
proof -
  from try_thrown [OF assms] have rc: "retryCount s1 = retryCount s" and effs: "effs = []"
    by simp_all
  show ?thesis
    using assms rc effs ladder [of "retryCount s"]
    by (simp add: performLogin_def performLogin_catch_def updateState_simps no_updates_def
                  Let_def length_RETRY_DELAYS)
qed

text \<open>The theorem at a failed request for the login page, from the initial state.\<close>

theorem C1_witness:
  "status (fst (performLogin failing_world initial_state)) = Error
   \<and> lastError (fst (performLogin failing_world initial_state)) = Some ''Failed to fetch''
   \<and> retryCount (fst (performLogin failing_world initial_state)) = 1
   \<and> snd (performLogin failing_world initial_state) = [SetTimeout PerformLogin 5000]
   \<and> lastError (fst (performLogin timeout_world initial_state)) = Some ''Login request timed out''"
  using C1_transient_failure [OF failing_try, of initial_state]
        C1_transient_failure [OF timeout_try, of initial_state]
  by (simp add: initial_state_def)

text \<open>
  C1 as stated fails for a request that timed out: the attempt from the initial state
  ends in an \<^verbatim>\<open>AbortError\<close> with the counter at 0, below 4; afterwards the counter is
  still 0, not 1, and no retry is scheduled.
\<close>

theorem C1_counterexample:
  "performLogin_try timeout_world initial_state
     = ((initial_state, []), Some (JsError ''AbortError'' ''The user aborted a request.''))
   \<and> retryCount initial_state < 4
   \<and> retryCount (fst (performLogin timeout_world initial_state)) = 0
   \<and> retryCount (fst (performLogin timeout_world initial_state)) \<noteq> retryCount initial_state + 1
   \<and> snd (performLogin timeout_world initial_state) = []"
  by (simp add: performLogin_def timeout_try performLogin_catch_def updateState_simps
                no_updates_def initial_state_def)

subsection \<open>The retry counter over all runs\<close>

text \<open>
  C2 (as the code has it). In every state reachable from the initial one by the
  triggers, \<^verbatim>\<open>retryCount\<close> is at most 4, the length of the ladder, and it is 0 whenever
  the status is Connected. A trigger leaves the counter as it was, raises it by one or
  sets it to 0; and it takes a non-zero counter to 0 only on a transition to Connected,
  on exhaustion of the ladder (the counter stood at 4, nothing is scheduled, the status
  is Error or NetworkDown), on a reset caused by a change of the stored credentials, or
  when the portal rejects the credentials (status Error, "Invalid credentials").
\<close>

theorem C2_retryCount_resets:
  assumes "reachable s" and "fire ev s = (s', effs)"
  shows "retryCount s \<le> 4 \<and> retryCount s' \<le> 4
       \<and> (status s' = Connected \<longrightarrow> retryCount s' = 0)
       \<and> (retryCount s' = 0 \<or> retryCount s' = retryCount s \<or> retryCount s' = retryCount s + 1)
       \<and> (retryCount s \<noteq> 0 \<and> retryCount s' = 0 \<longrightarrow>
             status s' = Connected
           \<or> (retryCount s = 4 \<and> effs = [] \<and> (status s' = Error \<or> status s' = NetworkDown))
           \<or> (ev = CredentialsChanged \<and> status s' = Idle)
           \<or> (status s' = Error \<and> lastError s' = Some ''Invalid credentials''))"
proof -
  have "reachable (fst (fire ev s))" using assms(1) by (rule reachable.step)
  then have r': "reachable s'" using assms(2) by simp
  from reachable_invariant [OF assms(1)] reachable_invariant [OF r'] fire_cases [OF assms(2)]
  show ?thesis by (auto simp: counter_step_def)
qed

text \<open>The theorem after one failed login, at a login that the portal rejects.\<close>

theorem C2_witness:
  "retryCount (run [TimerPerformLogin failing_world] initial_state) = 1
   \<and> retryCount (fst (fire (TimerPerformLogin rejecting_world)
                         (run [TimerPerformLogin failing_world] initial_state))) = 0
   \<and> status (fst (fire (TimerPerformLogin rejecting_world)
                     (run [TimerPerformLogin failing_world] initial_state))) = Error
   \<and> lastError (fst (fire (TimerPerformLogin rejecting_world)
                        (run [TimerPerformLogin failing_world] initial_state)))
        = Some ''Invalid credentials''"
proof -
  let ?s = "run [TimerPerformLogin failing_world] initial_state"
  let ?ev = "TimerPerformLogin rejecting_world"
  have r: "reachable ?s" using reachable.start by (rule reachable_run)
  have f: "fire ?ev ?s = (fst (fire ?ev ?s), snd (fire ?ev ?s))" by simp
  have rc: "retryCount ?s = 1" by (simp add: one_failure)
  have rc': "retryCount (fst (fire ?ev ?s)) = 0"
    by (simp add: rejecting_login updateState_simps no_updates_def)
  have st: "status (fst (fire ?ev ?s)) \<noteq> Connected"
    by (simp add: rejecting_login updateState_simps no_updates_def)
  from C2_retryCount_resets [OF r f] rc rc' st
  have "status (fst (fire ?ev ?s)) = Error
        \<and> lastError (fst (fire ?ev ?s)) = Some ''Invalid credentials''"
    by simp
  with rc rc' show ?thesis by simp
qed

text \<open>
  C2 as stated fails: after one failed login the counter is 1; a login that the portal
  then rejects sets it to 0, although the status becomes Error and not Connected, the
  ladder is not exhausted and no credential update took place.
\<close>

theorem C2_counterexample:
  "retryCount (run [TimerPerformLogin failing_world] initial_state) = 1
   \<and> retryCount (run [TimerPerformLogin failing_world, TimerPerformLogin rejecting_world]
                    initial_state) = 0
   \<and> status (run [TimerPerformLogin failing_world, TimerPerformLogin rejecting_world]
                initial_state) = Error
   \<and> lastError (run [TimerPerformLogin failing_world, TimerPerformLogin rejecting_world]
                   initial_state) = Some ''Invalid credentials''
   \<and> snd (fire (TimerPerformLogin rejecting_world)
            (run [TimerPerformLogin failing_world] initial_state)) = [ShowCredentialsNotification]"
proof -
  have "run [TimerPerformLogin failing_world, TimerPerformLogin rejecting_world] initial_state
        = fst (performLogin rejecting_world (run [TimerPerformLogin failing_world] initial_state))"
    by simp
  then show ?thesis
    by (simp add: rejecting_login updateState_simps no_updates_def one_failure)
qed

subsection \<open>Successful login\<close>

text \<open>
  C3. Whenever a login attempt gets as far as the portal's answer to the submitted form
  (credentials stored and decrypted, login page fetched, token found) and that answer
  counts as a success, that is status 302 or 303, or a 2xx status with a body that
  holds a success keyword and no failure keyword, then \<^verbatim>\<open>performLogin\<close> leaves status
  Connected, \<^verbatim>\<open>isConnected\<close> true, \<^verbatim>\<open>lastError\<close> cleared, \<^verbatim>\<open>retryCount\<close> 0,
  \<^verbatim>\<open>lastLoginAt\<close> the current time and \<^verbatim>\<open>nextRenewAt\<close> that time plus
  \<open>(sessionTimeout - 120) * 1000\<close> milliseconds, so that the two differ by
  \<open>sessionTimeout - 120\<close> seconds; nothing is scheduled.
\<close>

theorem C3_successful_login:
  assumes "w_storedCreds w = Inr (Some blob)"
    and "w_decryptCredentials w blob = Inr (Some creds)"
    and "username creds \<noteq> []" and "password creds \<noteq> []"
    and "w_loginPage w = Inr page" and "ok page" and "resp_text page = Inr html"
    and "magic (extractFormData html) = Some m"
    and "w_loginPost w (submitted_form creds html) = Inr r"
    and "resp_status r = 302 \<or> resp_status r = 303
         \<or> (ok r \<and> resp_text r = Inr text
              \<and> (\<exists>k \<in> set [''keepalive'', ''logout'', ''success'', ''welcome''].
                    sublist k (toLowerCase text))
              \<and> \<not> (\<exists>k \<in> set [''invalid'', ''failed'', ''incorrect'', ''error'', ''login-form''].
                      sublist k (toLowerCase text)))"
  shows "status (fst (performLogin w s)) = Connected
       \<and> isConnected (fst (performLogin w s)) = True
       \<and> lastError (fst (performLogin w s)) = None
       \<and> retryCount (fst (performLogin w s)) = 0
       \<and> lastLoginAt (fst (performLogin w s)) = Some (w_loginNow w)
       \<and> nextRenewAt (fst (performLogin w s))
           = Some (w_loginNow w + (sessionTimeout (fst (performLogin w s)) - 120) * 1000)
       \<and> the (nextRenewAt (fst (performLogin w s))) - the (lastLoginAt (fst (performLogin w s)))
           = (sessionTimeout (fst (performLogin w s)) - 120) * 1000
       \<and> snd (performLogin w s) = []"
proof -
  have "performLogin_check w (after_detection s html) r = loginSucceeded w (after_detection s html)"
    using assms(10) by (auto simp: performLogin_check_def hasError_iff hasSuccess_iff)
  then have "performLogin_try w s = loginSucceeded w (after_detection s html)"
    using try_submitted [OF assms(1-9)] by simp
  then show ?thesis
    by (simp add: performLogin_def loginSucceeded_def Let_def updateState_simps no_updates_def
                  RENEW_BEFORE_def)
qed

text \<open>The theorem in the sample world: a redirect answers the form; the page hints 30 minutes.\<close>

theorem C3_witness:
  "status (fst (performLogin sample_world initial_state)) = Connected
   \<and> retryCount (fst (performLogin sample_world initial_state)) = 0
   \<and> sessionTimeout (fst (performLogin sample_world initial_state)) = 1800
   \<and> lastLoginAt (fst (performLogin sample_world initial_state)) = Some 2000
   \<and> nextRenewAt (fst (performLogin sample_world initial_state)) = Some 1682000"
proof -
  have st: "sessionTimeout (fst (performLogin sample_world initial_state)) = 1800"
    by (simp add: performLogin_def sample_submitted performLogin_check_def loginSucceeded_def
                  Let_def updateState_simps no_updates_def after_detection_def sample_page_timeout)
  have "w_storedCreds sample_world = Inr (Some \<lparr>data = ''AAAA'', timestamp = 500, version = ''1.0''\<rparr>)"
    and "w_decryptCredentials sample_world \<lparr>data = ''AAAA'', timestamp = 500, version = ''1.0''\<rparr>
           = Inr (Some \<lparr>username = ''alice'', password = ''secret''\<rparr>)"
    and "username \<lparr>username = ''alice'', password = ''secret''\<rparr> \<noteq> []"
    and "password \<lparr>username = ''alice'', password = ''secret''\<rparr> \<noteq> []"
    and "w_loginPage sample_world = Inr \<lparr>resp_status = 200, resp_text = Inr sample_page\<rparr>"
    and "ok \<lparr>resp_status = 200, resp_text = Inr sample_page\<rparr>"
    and "resp_text \<lparr>resp_status = 200, resp_text = Inr sample_page\<rparr> = Inr sample_page"
    and "w_loginPost sample_world (submitted_form \<lparr>username = ''alice'', password = ''secret''\<rparr> sample_page)
           = Inr \<lparr>resp_status = 303, resp_text = Inr []\<rparr>"
    and "resp_status \<lparr>resp_status = 303, resp_text = Inr []\<rparr> = 302
         \<or> resp_status \<lparr>resp_status = 303, resp_text = Inr []\<rparr> = 303
         \<or> (ok \<lparr>resp_status = 303, resp_text = Inr []\<rparr> \<and> resp_text \<lparr>resp_status = 303, resp_text = Inr []\<rparr> = Inr []
              \<and> (\<exists>k \<in> set [''keepalive'', ''logout'', ''success'', ''welcome''].
                    sublist k (toLowerCase []))
              \<and> \<not> (\<exists>k \<in> set [''invalid'', ''failed'', ''incorrect'', ''error'', ''login-form''].
                      sublist k (toLowerCase [])))"
    by (simp_all add: sample_world_def ok_def)
  from C3_successful_login [OF this(1-5) this(6) this(7) sample_page_magic this(8) this(9), of initial_state]
  show ?thesis using st by (simp add: sample_world_def)
qed

subsection \<open>Connectivity probe\<close>

text \<open>
  C4. A run of the probe answers Connected exactly when the first request resolves with
  status 204; otherwise NeedsLogin exactly when the second request resolves with a 2xx
  status or 302; otherwise NetworkDown, whatever made the two steps fail.
\<close>

theorem C4_probe_classification:
  "checkConnectivity external portal =
     (if (\<exists>r. external = Inr r \<and> resp_status r = 204)
      then \<lparr>connected = True, needsLogin = False, networkDown = False\<rparr>
      else if (\<exists>r. portal = Inr r \<and> (ok r \<or> resp_status r = 302))
      then \<lparr>connected = False, needsLogin = True, networkDown = False\<rparr>
      else \<lparr>connected = False, needsLogin = False, networkDown = True\<rparr>)"
  by (cases external; cases portal) (auto simp: checkConnectivity_def)

subsection \<open>Invalid credentials\<close>

text \<open>
  C5. Whenever the portal answers the submitted form with a 2xx status and a body that
  holds one of the failure keywords (compared in lower case), \<^verbatim>\<open>performLogin\<close> ends in
  status Error with \<^verbatim>\<open>lastError\<close> "Invalid credentials" and \<^verbatim>\<open>retryCount\<close> 0; its only
  effect is the notification, no timer is set. Nothing is assumed about success
  keywords in the body.
\<close>

theorem C5_invalid_credentials:
  assumes "w_storedCreds w = Inr (Some blob)"
    and "w_decryptCredentials w blob = Inr (Some creds)"
    and "username creds \<noteq> []" and "password creds \<noteq> []"
    and "w_loginPage w = Inr page" and "ok page" and "resp_text page = Inr html"
    and "magic (extractFormData html) = Some m"
    and "w_loginPost w (submitted_form creds html) = Inr r"
    and "200 \<le> resp_status r" and "resp_status r \<le> 299" and "resp_text r = Inr text"
    and "k \<in> set [''invalid'', ''failed'', ''incorrect'', ''error'', ''login-form'']"
    and "sublist k (toLowerCase text)"
  shows "status (fst (performLogin w s)) = Error
       \<and> lastError (fst (performLogin w s)) = Some ''Invalid credentials''
       \<and> retryCount (fst (performLogin w s)) = 0
       \<and> isConnected (fst (performLogin w s)) = False
       \<and> snd (performLogin w s) = [ShowCredentialsNotification]"
proof -
  have "hasError text"
    using assms(13,14) unfolding hasError_iff by blast
  then have "performLogin_try w s =
      ((updateState (no_updates\<lparr>u_status := Some Error,
                                 u_lastError := Some (Some ''Invalid credentials''),
                                 u_isConnected := Some False,
                                 u_retryCount := Some 0\<rparr>) (after_detection s html),
        [ShowCredentialsNotification]), None)"
    using try_submitted [OF assms(1-9)] assms(10-12)
    by (simp add: performLogin_check_def ok_def)
  then show ?thesis
    by (simp add: performLogin_def updateState_simps no_updates_def)
qed

text \<open>The theorem where the body holds both a success and a failure keyword.\<close>

theorem C5_witness:
  "status (fst (performLogin rejecting_world initial_state)) = Error
   \<and> lastError (fst (performLogin rejecting_world initial_state)) = Some ''Invalid credentials''
   \<and> retryCount (fst (performLogin rejecting_world initial_state)) = 0
   \<and> snd (performLogin rejecting_world initial_state) = [ShowCredentialsNotification]"
proof -
  have "w_storedCreds rejecting_world = Inr (Some \<lparr>data = ''AAAA'', timestamp = 500, version = ''1.0''\<rparr>)"
    and "w_decryptCredentials rejecting_world \<lparr>data = ''AAAA'', timestamp = 500, version = ''1.0''\<rparr>
           = Inr (Some \<lparr>username = ''alice'', password = ''secret''\<rparr>)"
    and "username \<lparr>username = ''alice'', password = ''secret''\<rparr> \<noteq> []"
    and "password \<lparr>username = ''alice'', password = ''secret''\<rparr> \<noteq> []"
    and "w_loginPage rejecting_world = Inr \<lparr>resp_status = 200, resp_text = Inr sample_page\<rparr>"
    and "ok \<lparr>resp_status = 200, resp_text = Inr sample_page\<rparr>"
    and "resp_text \<lparr>resp_status = 200, resp_text = Inr sample_page\<rparr> = Inr sample_page"
    and "w_loginPost rejecting_world (submitted_form \<lparr>username = ''alice'', password = ''secret''\<rparr> sample_page)
           = Inr \<lparr>resp_status = 200, resp_text = Inr ''Welcome! Invalid login''\<rparr>"
    and "200 \<le> resp_status \<lparr>resp_status = 200, resp_text = Inr ''Welcome! Invalid login''\<rparr>"
    and "resp_status \<lparr>resp_status = 200, resp_text = Inr ''Welcome! Invalid login''\<rparr> \<le> 299"
    and "resp_text \<lparr>resp_status = 200, resp_text = Inr ''Welcome! Invalid login''\<rparr>
           = Inr ''Welcome! Invalid login''"
    and "''invalid'' \<in> set [''invalid'', ''failed'', ''incorrect'', ''error'', ''login-form'']"
    by (simp_all add: rejecting_world_def sample_world_def ok_def)
  from C5_invalid_credentials [OF this(1-5) this(6) this(7) sample_page_magic this(8-12) rejecting_body,
         of initial_state]
  show ?thesis by simp
qed

subsection \<open>Stored credentials that do not decrypt\<close>

text \<open>
  C6 (divergence). The blob \<open>stored_blob\<close> decrypts under the key it was written with.
  Under another key \<^verbatim>\<open>decryptCredentials\<close> throws rather than returning \<^verbatim>\<open>null\<close>, the
  exception lands in the \<^verbatim>\<open>catch\<close> of \<^verbatim>\<open>performLogin\<close>, and the attempt is treated as a
  transient failure: the counter goes to 1 and a retry is scheduled after 5 seconds,
  with no notification. The branch "Failed to decrypt credentials", which schedules
  nothing, is reached only for a blob without data.
\<close>

theorem C6_undecryptable_blob_is_retried:
  "decryptCredentials toy_platform (Inr 7) (Some stored_blob)
     = Inr (Some \<lparr>username = ''alice'', password = ''secret''\<rparr>)
   \<and> decryptCredentials toy_platform (Inr 8) (Some stored_blob)
     = Inl (Error_of ''Invalid credentials or corrupted data'')
   \<and> performLogin undecryptable_world initial_state
     = (initial_state\<lparr>status := Error,
                       lastError := Some ''Invalid credentials or corrupted data'',
                       retryCount := 1\<rparr>,
        [SetTimeout PerformLogin 5000])"
proof -
  have "performLogin undecryptable_world initial_state
     = (updateState (no_updates\<lparr>u_status := Some Error,
            u_lastError := Some (Some (err_message (Error_of ''Invalid credentials or corrupted data''))),
            u_retryCount := Some (retryCount initial_state + 1)\<rparr>) initial_state,
        [SetTimeout PerformLogin (RETRY_DELAYS ! retryCount initial_state * 1000)])"
    by (rule decrypt_failure_retried [where blob = stored_blob])
       (simp_all add: undecryptable_world_def sample_world_def stored_blob_wrong_key
                      Error_of_def initial_state_def)
  then have "performLogin undecryptable_world initial_state
     = (initial_state\<lparr>status := Error,
                       lastError := Some ''Invalid credentials or corrupted data'',
                       retryCount := 1\<rparr>,
        [SetTimeout PerformLogin 5000])"
    by (simp add: updateState_def no_updates_def initial_state_def Error_of_def RETRY_DELAYS_nth)
  with stored_blob_right_key stored_blob_wrong_key show ?thesis by simp
qed

subsection \<open>Round trip of the vault\<close>

text \<open>
  C7 (as the code has it). On a platform whose decryption inverts its encryption and
  whose codecs are lossless, with a 12-byte nonce and one key for both directions: for
  every non-empty username and password, decrypting the encrypted pair returns the
  trimmed username and the password, provided the trimmed username is not empty; this is
  the pair itself when the username has no white space at its ends. A username of
  white space only is encrypted, and decryption then fails.
\<close>

theorem C7_round_trip:
  assumes "faithful_platform P" and "length iv = ivLength" and "usr \<noteq> []" and "pwd \<noteq> []"
  shows "(trim usr \<noteq> [] \<longrightarrow>
            decrypt_after_encrypt P k iv now usr pwd
              = Inr (Some \<lparr>username = trim usr, password = pwd\<rparr>))
       \<and> (trim usr = usr \<longrightarrow>
            decrypt_after_encrypt P k iv now usr pwd
              = Inr (Some \<lparr>username = usr, password = pwd\<rparr>))
       \<and> (trim usr = [] \<longrightarrow>
            decrypt_after_encrypt P k iv now usr pwd
              = Inl (Error_of ''Failed to decrypt credentials: Invalid credentials structure''))"
proof -
  let ?x = "\<lparr>p_username = trim usr, p_password = pwd, p_version = ''1.0''\<rparr>"
  have enc: "encryptCredentials P (Inr k) iv now usr pwd
        = Inr \<lparr>data = btoa_bytes P (iv @ subtle_encrypt P k iv (encode P (JSON_stringify P ?x))),
               timestamp = now, version = ''1.0''\<rparr>"
    using assms(3,4) by (simp add: encryptCredentials_def encryptCredentials_try_def Let_def)
  have "decrypt_after_encrypt P k iv now usr pwd =
          (if trim usr = [] then Inl (Error_of ''Failed to decrypt credentials: Invalid credentials structure'')
           else Inr (Some \<lparr>username = trim usr, password = pwd\<rparr>))"
    using assms(4) structure_message
    by (simp add: decrypt_after_encrypt_def enc decryptCredentials_def
                  decrypt_of_encrypted [OF assms(1,2)] Error_of_def)
  with assms(3) show ?thesis by auto
qed

text \<open>The theorem on the small platform, for a plain username and for a blank one.\<close>

theorem C7_witness:
  "decrypt_after_encrypt toy_platform 7 (replicate 12 0) 500 ''alice'' ''secret''
     = Inr (Some \<lparr>username = ''alice'', password = ''secret''\<rparr>)
   \<and> decrypt_after_encrypt toy_platform 7 (replicate 12 0) 500 '' '' ''secret''
     = Inl (Error_of ''Failed to decrypt credentials: Invalid credentials structure'')"
proof -
  have len: "length (replicate 12 (0::byte)) = ivLength" by (simp add: ivLength_def)
  have a: "''alice'' \<noteq> []" and b: "''secret'' \<noteq> []" and c: "'' '' \<noteq> []" by simp_all
  from C7_round_trip [OF faithful_toy len a b, of 7 500]
       C7_round_trip [OF faithful_toy len c b, of 7 500]
  show ?thesis by (simp add: trim_examples)
qed

text \<open>
  C7 as stated fails for a username with a leading space: the round trip returns it
  trimmed, not as it was given.
\<close>

theorem C7_counterexample:
  "decrypt_after_encrypt toy_platform 7 (replicate 12 0) 500 '' a'' ''b''
     = Inr (Some \<lparr>username = ''a'', password = ''b''\<rparr>)
   \<and> decrypt_after_encrypt toy_platform 7 (replicate 12 0) 500 '' a'' ''b''
     \<noteq> Inr (Some \<lparr>username = '' a'', password = ''b''\<rparr>)"
proof -
  let ?x = "\<lparr>p_username = ''a'', p_password = ''b'', p_version = ''1.0''\<rparr>"
  have len: "length (replicate 12 (0::byte)) = ivLength" by (simp add: ivLength_def)
  have enc: "encryptCredentials toy_platform (Inr 7) (replicate 12 0) 500 '' a'' ''b''
        = Inr \<lparr>data = btoa_bytes toy_platform (replicate 12 0 @ subtle_encrypt toy_platform 7 (replicate 12 0)
                         (encode toy_platform (JSON_stringify toy_platform ?x))),
               timestamp = 500, version = ''1.0''\<rparr>"
    by (simp add: encryptCredentials_def encryptCredentials_try_def Let_def trim_examples)
  have "decrypt_after_encrypt toy_platform 7 (replicate 12 0) 500 '' a'' ''b''
     = Inr (Some \<lparr>username = ''a'', password = ''b''\<rparr>)"
    by (simp add: decrypt_after_encrypt_def enc decryptCredentials_def
                  decrypt_of_encrypted [OF faithful_toy len])
  then show ?thesis by simp
qed

subsection \<open>Network-down handling and the retry counter\<close>

text \<open>
  C8 (as the code has it). \<^verbatim>\<open>handleNetworkDown\<close> and the failure branch of
  \<^verbatim>\<open>performLogin\<close> use the same ladder of 5, 15, 45 and 120 seconds and the same
  exhaustion rule (at a count of 4 no timer is set and the count goes back to 0), with
  their own status and messages. They share the one counter \<^verbatim>\<open>retryCount\<close>: after a
  network-down retry a login failure continues on the next rung, and the other way
  round.
\<close>

theorem C8_shared_ladder:
  assumes "err_name e \<noteq> ''AbortError''"
  shows "RETRY_DELAYS = [5, 15, 45, 120]
       \<and> status (fst (handleNetworkDown s)) = NetworkDown
       \<and> status (fst (performLogin_catch e s)) = Error
       \<and> (retryCount s < 4 \<longrightarrow>
            snd (handleNetworkDown s) = [SetTimeout CheckAndLogin (RETRY_DELAYS ! retryCount s * 1000)]
          \<and> snd (performLogin_catch e s) = [SetTimeout PerformLogin (RETRY_DELAYS ! retryCount s * 1000)]
          \<and> retryCount (fst (handleNetworkDown s)) = retryCount s + 1
          \<and> retryCount (fst (performLogin_catch e s)) = retryCount s + 1
          \<and> lastError (fst (handleNetworkDown s)) = Some ''Network unreachable''
          \<and> lastError (fst (performLogin_catch e s)) = Some (err_message e))
       \<and> (4 \<le> retryCount s \<longrightarrow>
            snd (handleNetworkDown s) = [] \<and> snd (performLogin_catch e s) = []
          \<and> retryCount (fst (handleNetworkDown s)) = 0
          \<and> retryCount (fst (performLogin_catch e s)) = 0
          \<and> lastError (fst (handleNetworkDown s)) = Some ''Network unreachable - max retries exceeded''
          \<and> lastError (fst (performLogin_catch e s)) = Some (''Login failed - '' @ err_message e))
       \<and> (retryCount s < 3 \<longrightarrow>
            snd (performLogin_catch e (fst (handleNetworkDown s)))
              = [SetTimeout PerformLogin (RETRY_DELAYS ! (retryCount s + 1) * 1000)]
          \<and> snd (handleNetworkDown (fst (performLogin_catch e s)))
              = [SetTimeout CheckAndLogin (RETRY_DELAYS ! (retryCount s + 1) * 1000)])"
  using assms
  by (simp add: handleNetworkDown_def performLogin_catch_def updateState_simps no_updates_def
                Let_def length_RETRY_DELAYS) (simp add: RETRY_DELAYS_def)

text \<open>The theorem at a counter of 0 and at a counter of 4.\<close>

theorem C8_witness:
  "snd (handleNetworkDown initial_state) = [SetTimeout CheckAndLogin 5000]
   \<and> snd (performLogin_catch (JsError ''TypeError'' ''Failed to fetch'') initial_state)
        = [SetTimeout PerformLogin 5000]
   \<and> retryCount (fst (handleNetworkDown (initial_state\<lparr>retryCount := 4\<rparr>))) = 0
   \<and> retryCount (fst (performLogin_catch (JsError ''TypeError'' ''Failed to fetch'')
                        (initial_state\<lparr>retryCount := 4\<rparr>))) = 0
   \<and> snd (performLogin_catch (JsError ''TypeError'' ''Failed to fetch'')
            (fst (handleNetworkDown initial_state))) = [SetTimeout PerformLogin 15000]"
proof -
  have e: "err_name (JsError ''TypeError'' ''Failed to fetch'') \<noteq> ''AbortError''" by simp
  have r0: "retryCount initial_state = 0" by (simp add: initial_state_def)
  have r4: "retryCount (initial_state\<lparr>retryCount := 4\<rparr>) = 4" by simp
  from C8_shared_ladder [OF e, of initial_state] r0
  have a: "snd (handleNetworkDown initial_state) = [SetTimeout CheckAndLogin 5000]
      \<and> snd (performLogin_catch (JsError ''TypeError'' ''Failed to fetch'') initial_state)
        = [SetTimeout PerformLogin 5000]
      \<and> snd (performLogin_catch (JsError ''TypeError'' ''Failed to fetch'')
            (fst (handleNetworkDown initial_state))) = [SetTimeout PerformLogin 15000]"
    by (simp add: RETRY_DELAYS_nth)
  from C8_shared_ladder [OF e, of "initial_state\<lparr>retryCount := 4\<rparr>"] r4
  have b: "retryCount (fst (handleNetworkDown (initial_state\<lparr>retryCount := 4\<rparr>))) = 0
   \<and> retryCount (fst (performLogin_catch (JsError ''TypeError'' ''Failed to fetch'')
                        (initial_state\<lparr>retryCount := 4\<rparr>))) = 0"
    by simp
  from a b show ?thesis by blast
qed

text \<open>
  C8 as stated fails: the counters are not independent. A failed login from the initial
  state is retried after 5 seconds; after one network-down retry the same failure is
  retried after 15 seconds, because the network-down retry raised the counter that the
  login failure reads.
\<close>

theorem C8_counterexample:
  "snd (performLogin failing_world initial_state) = [SetTimeout PerformLogin 5000]
   \<and> snd (performLogin failing_world (fst (handleNetworkDown initial_state)))
        = [SetTimeout PerformLogin 15000]
   \<and> retryCount (fst (handleNetworkDown initial_state)) \<noteq> retryCount initial_state"
  by (simp add: performLogin_def failing_try performLogin_catch_def handleNetworkDown_def
                updateState_simps no_updates_def initial_state_def RETRY_DELAYS_def)

subsection \<open>Session time-out hint\<close>

text \<open>
  C9 (as the code has it). \<^verbatim>\<open>detectSessionTimeout\<close> takes the first of its three patterns
  (explicit seconds, keep-alive, minutes-suffixed) that matches the page; a matched
  number below 60 is read as minutes and multiplied by 60, any other matched number is
  returned as it is. When no pattern matches, the detector returns the current
  \<^verbatim>\<open>sessionTimeout\<close> of the state, a number and not an absent value, and
  \<^verbatim>\<open>performLogin\<close> then leaves \<^verbatim>\<open>sessionTimeout\<close> as it was.
\<close>

theorem C9_session_timeout_hint:
  "detectSessionTimeout s html =
     (case first_match timeout_patterns html of
        Some m \<Rightarrow> Some (if parseInt m < 60 then parseInt m * 60 else parseInt m)
      | None \<Rightarrow> Some (sessionTimeout s))
   \<and> (w_loginPage w = Inr page \<and> resp_text page = Inr html
        \<and> first_match timeout_patterns html = None
      \<longrightarrow> sessionTimeout (fst (performLogin w s)) = sessionTimeout s)"
proof -
  have d: "detectSessionTimeout s html =
     (case first_match timeout_patterns html of
        Some m \<Rightarrow> Some (if parseInt m < 60 then parseInt m * 60 else parseInt m)
      | None \<Rightarrow> Some (sessionTimeout s))"
    by (simp add: detectSessionTimeout_def detect_loop_first_match)
  have "sessionTimeout (fst (performLogin w s)) = sessionTimeout s"
    if "w_loginPage w = Inr page" "resp_text page = Inr html"
       "first_match timeout_patterns html = None"
    using that d by (intro performLogin_sessionTimeout [of w page html]) simp_all
  with d show ?thesis by blast
qed

text \<open>The theorem on the sample page (hint 30) and on the page without a hint.\<close>

theorem C9_witness:
  "detectSessionTimeout initial_state sample_page = Some 1800
   \<and> sessionTimeout (fst (performLogin
        (sample_world\<lparr>w_loginPage := Inr \<lparr>resp_status = 200, resp_text = Inr plain_page\<rparr>\<rparr>)
        initial_state)) = 1200"
proof -
  have a: "detectSessionTimeout initial_state sample_page = Some 1800"
    using C9_session_timeout_hint [of initial_state sample_page]
    by (simp add: sample_page_hint parseInt_30)
  have b: "sessionTimeout (fst (performLogin
        (sample_world\<lparr>w_loginPage := Inr \<lparr>resp_status = 200, resp_text = Inr plain_page\<rparr>\<rparr>)
        initial_state)) = sessionTimeout initial_state"
    using C9_session_timeout_hint [of initial_state plain_page
            "sample_world\<lparr>w_loginPage := Inr \<lparr>resp_status = 200, resp_text = Inr plain_page\<rparr>\<rparr>"
            "\<lparr>resp_status = 200, resp_text = Inr plain_page\<rparr>"]
    by (simp add: plain_page_hint)
  from a b show ?thesis by (simp add: initial_state_def)
qed

text \<open>
  C9 as stated fails in its last part: on a page that no pattern matches the detector
  does not return an absent value, it returns the number 1200 held by the state.
\<close>

theorem C9_counterexample:
  "first_match timeout_patterns plain_page = None
   \<and> detectSessionTimeout initial_state plain_page = Some 1200
   \<and> detectSessionTimeout initial_state plain_page \<noteq> None"
  by (simp add: plain_page_hint detectSessionTimeout_def detect_loop_first_match initial_state_def)

subsection \<open>Force-login message\<close>

text \<open>
  C10. A \<^verbatim>\<open>force-login\<close> message received in status Connected or Checking is answered
  with \<^verbatim>\<open>success: false\<close> and the message "Already connected" or "Already checking...";
  the state is unchanged and nothing is started. In every other status the handler
  runs \<^verbatim>\<open>checkAndLogin(true)\<close>, which enters Checking and goes straight to
  \<^verbatim>\<open>performLogin\<close> without probing.
\<close>

theorem C10_force_login:
  "(status s = Connected \<longrightarrow>
      forceLoginMessage w s = ((s, []), \<lparr>success = False, message = Some ''Already connected''\<rparr>))
   \<and> (status s = Checking \<longrightarrow>
      forceLoginMessage w s = ((s, []), \<lparr>success = False, message = Some ''Already checking...''\<rparr>))
   \<and> (status s \<noteq> Connected \<and> status s \<noteq> Checking \<longrightarrow>
      forceLoginMessage w s = (checkAndLogin True w s, \<lparr>success = True, message = None\<rparr>)
      \<and> checkAndLogin True w s = performLogin w (s\<lparr>status := Checking\<rparr>))"
  by (simp add: forceLoginMessage_def checkAndLogin_forced)

text \<open>The theorem in status Connected, in status Checking and in status Idle.\<close>

theorem C10_witness:
  "forceLoginMessage sample_world (initial_state\<lparr>status := Connected\<rparr>)
     = ((initial_state\<lparr>status := Connected\<rparr>, []),
        \<lparr>success = False, message = Some ''Already connected''\<rparr>)
   \<and> forceLoginMessage sample_world (initial_state\<lparr>status := Checking\<rparr>)
     = ((initial_state\<lparr>status := Checking\<rparr>, []),
        \<lparr>success = False, message = Some ''Already checking...''\<rparr>)
   \<and> forceLoginMessage sample_world initial_state
     = (performLogin sample_world (initial_state\<lparr>status := Checking\<rparr>),
        \<lparr>success = True, message = None\<rparr>)"
  using C10_force_login [of "initial_state\<lparr>status := Connected\<rparr>" sample_world]
        C10_force_login [of "initial_state\<lparr>status := Checking\<rparr>" sample_world]
        C10_force_login [of initial_state sample_world]
  by (simp add: initial_state_def)

end
